theory Spec2Isabelle
  imports Complex_Main "HOL-Library.Sublist" "HOL-Library.Word"
begin

section \<open>Data model (types.ts)\<close>

text \<open>
  Strings are lists of characters (code units below 256). An optional field of an
  interface is an \<open>option\<close>: \<open>None\<close> is the absent (\<^verbatim>\<open>undefined\<close>) field.
\<close>

datatype Role = USER | MODEL | SYSTEM

text \<open>The fields \<^verbatim>\<open>id\<close> and \<^verbatim>\<open>text\<close> of \<^verbatim>\<open>ChatMessage\<close> are \<open>msg_id\<close> and \<open>msg_text\<close> here.\<close>

record ChatMessage =
  msg_id :: string
  role :: Role
  msg_text :: string
  timestamp :: nat
  images :: "string list option"
  isError :: "bool option"

datatype ProviderType = gemini | openai

text \<open>The fields \<^verbatim>\<open>id\<close>, \<^verbatim>\<open>name\<close> and \<^verbatim>\<open>type\<close> of \<^verbatim>\<open>AIProvider\<close> carry the prefix \<open>provider_\<close>.\<close>

record AIProvider =
  provider_id :: string
  provider_name :: string
  provider_type :: ProviderType
  baseUrl :: "string option"
  apiKey :: "string option"
  modelId :: string
  isSystem :: "bool option"

definition IMAGEN :: string where
  "IMAGEN = ''imagen-4.0-generate-001''"

section \<open>Effects of a call\<close>

text \<open>A thrown \<^verbatim>\<open>Error\<close> (or a rejection of the platform) with its message.\<close>

datatype error = Error string

text \<open>
  What an asynchronous iterator or a body reader delivers: the items in order, then either
  the end of the stream (\<open>None\<close>) or a failure.
\<close>

datatype 'a stream = Stream (items: "'a list") (failure: "error option")

text \<open>Content parts and turns as the vendor SDK takes them.\<close>

datatype part = TextPart string | InlineData (mimeType: string) (data: string)

record content =
  content_role :: string
  parts :: "part list"

record chat_params =
  model :: string
  history :: "content list"
  temperature :: rat
  systemInstruction :: string

text \<open>The \<^verbatim>\<open>message\<close> of \<^verbatim>\<open>sendMessageStream\<close>: a bare string or a list of parts.\<close>

datatype message = MessageString string | MessageParts "part list"

record image_request =
  image_model :: string
  prompt :: string
  numberOfImages :: nat
  outputMimeType :: string
  aspectRatio :: string

datatype sdk_call =
  ChatsCreate chat_params
| SendMessageStream message
| GenerateImages image_request

text \<open>Messages and the request of the OpenAI-compatible wire protocol.\<close>

record api_message =
  api_role :: string
  api_content :: string

record request_body =
  body_model :: string
  messages :: "api_message list"
  stream :: bool
  body_temperature :: rat
  max_tokens :: nat

record http_request =
  url :: string
  http_method :: string
  headers :: "(string \<times> string) list"
  body :: request_body

text \<open>
  The observable behaviour of one call of an adapter: how the promise settles
  (\<open>Inl\<close> a rejection, \<open>Inr\<close> the resolved text), the arguments of the \<^verbatim>\<open>onChunk\<close>
  invocations in order, the calls made to the vendor SDK, the \<^verbatim>\<open>fetch\<close> calls, and the
  arguments given to \<^verbatim>\<open>JSON.parse\<close>. The callback is a log: it returns and does not throw.
\<close>

record run =
  outcome :: "error + string"
  onChunk_calls :: "string list"
  sdk_calls :: "sdk_call list"
  fetch_calls :: "http_request list"
  parse_calls :: "string list"

section \<open>Managed-protocol adapter (streamGemini)\<close>

text \<open>A JavaScript string is falsy exactly when it is absent or empty.\<close>

fun truthy_string :: "string option \<Rightarrow> bool" where
  "truthy_string None = False"
| "truthy_string (Some s) = (s \<noteq> [])"

text \<open>
  \<^verbatim>\<open>getGeminiClient\<close>: the parameter is the value of \<^verbatim>\<open>process.env.API_KEY\<close>; the client
  is represented by its key.
\<close>

definition getGeminiClient :: "string option \<Rightarrow> error + string" where
  "getGeminiClient API_KEY =
     (case API_KEY of
        None \<Rightarrow> Inl (Error ''System API_KEY missing.'')
      | Some k \<Rightarrow> if k = [] then Inl (Error ''System API_KEY missing.'') else Inr k)"

definition inlineImage :: "string \<Rightarrow> part" where
  "inlineImage img = InlineData ''image/jpeg'' img"

text \<open>The function mapped over \<^verbatim>\<open>history.slice(0, -1)\<close>.\<close>

definition historyEntry :: "ChatMessage \<Rightarrow> content" where
  "historyEntry msg =
     \<lparr> content_role = (if role msg = USER then ''user'' else ''model''),
       parts = (case images msg of
                  Some (i # is) \<Rightarrow> [TextPart (msg_text msg)] @ map inlineImage (i # is)
                | _ \<Rightarrow> [TextPart (msg_text msg)]) \<rparr>"

definition prevHistory :: "ChatMessage list \<Rightarrow> content list" where
  "prevHistory hist = map historyEntry (butlast hist)"

text \<open>The array \<^verbatim>\<open>parts\<close> of the new turn, and the message made of it.\<close>

definition newParts :: "string \<Rightarrow> string list \<Rightarrow> part list" where
  "newParts newMessage newImages =
     (if length newImages > 0 then [TextPart newMessage] @ map inlineImage newImages
      else [TextPart newMessage])"

text \<open>
  \<^verbatim>\<open>parts.length === 1 ? parts[0].text : parts\<close>. The first element of \<^verbatim>\<open>parts\<close> is
  always the text part.
\<close>

fun outgoingMessage :: "part list \<Rightarrow> message" where
  "outgoingMessage [TextPart t] = MessageString t"
| "outgoingMessage ps = MessageParts ps"

text \<open>
  The \<^verbatim>\<open>for await\<close> loop. The state is \<^verbatim>\<open>responseText\<close> and the log of \<^verbatim>\<open>onChunk\<close>
  invocations; a chunk is the value of its \<^verbatim>\<open>text\<close> getter (\<open>None\<close> when undefined).
\<close>

fun consumeChunks :: "string \<times> string list \<Rightarrow> string option list \<Rightarrow> string \<times> string list" where
  "consumeChunks (responseText, calls) [] = (responseText, calls)"
| "consumeChunks (responseText, calls) (c # cs) =
     (case c of
        None \<Rightarrow> consumeChunks (responseText, calls) cs
      | Some t \<Rightarrow>
          if t \<noteq> []
          then consumeChunks (responseText @ t, calls @ [responseText @ t]) cs
          else consumeChunks (responseText, calls) cs)"

text \<open>
  \<^verbatim>\<open>streamGemini\<close>. \<open>API_KEY\<close> is the environment's key and \<open>sent\<close> is what
  \<^verbatim>\<open>chat.sendMessageStream\<close> does for this call: it throws, or it returns a stream of
  chunks. The \<^verbatim>\<open>catch\<close> block logs and rethrows, so a failure of the stream settles the call
  with that failure after the chunks before it were reported.
\<close>

definition streamGemini ::
  "string option \<Rightarrow> (error + string option stream) \<Rightarrow>
   ChatMessage list \<Rightarrow> string \<Rightarrow> string list \<Rightarrow> string \<Rightarrow> run" where
  "streamGemini API_KEY sent hist newMessage newImages modelName =
     (case getGeminiClient API_KEY of
        Inl e \<Rightarrow> \<lparr> outcome = Inl e, onChunk_calls = [], sdk_calls = [],
                   fetch_calls = [], parse_calls = [] \<rparr>
      | Inr ai \<Rightarrow>
          let chat = \<lparr> model = modelName, history = prevHistory hist, temperature = 7 / 10,
                       systemInstruction = ''You are a helpful, professional AI assistant in a studio application. Use Markdown for formatting.'' \<rparr>;
              calls = [ChatsCreate chat,
                       SendMessageStream (outgoingMessage (newParts newMessage newImages))]
          in (case sent of
                Inl e \<Rightarrow> \<lparr> outcome = Inl e, onChunk_calls = [], sdk_calls = calls,
                           fetch_calls = [], parse_calls = [] \<rparr>
              | Inr streamResult \<Rightarrow>
                  let (responseText, reported) = consumeChunks ([], []) (items streamResult)
                  in \<lparr> outcome = (case failure streamResult of
                                      Some e \<Rightarrow> Inl e | None \<Rightarrow> Inr responseText),
                       onChunk_calls = reported, sdk_calls = calls,
                       fetch_calls = [], parse_calls = [] \<rparr>))"

section \<open>JavaScript values\<close>

text \<open>
  The values \<^verbatim>\<open>JSON.parse\<close> returns and property access makes of them. Numbers are
  IEEE doubles on the platform; their type \<open>'n\<close> and the two operations the adapter
  applies to them are parameters. An object is the list of its members in source order.
\<close>

datatype 'n jsvalue =
  JUndefined
| JNull
| JBoolean bool
| JNumber 'n
| JString string
| JArray "'n jsvalue list"
| JObject "(string \<times> 'n jsvalue) list"

text \<open>
  The platform functions the OpenAI-compatible adapter calls: \<^verbatim>\<open>JSON.parse\<close>
  (\<open>None\<close> when it throws a SyntaxError), the truth value of a number and its
  conversion to a string.
\<close>

record 'n platform =
  JSON_parse :: "string \<Rightarrow> 'n jsvalue option"
  Number_truthy :: "'n \<Rightarrow> bool"
  Number_toString :: "'n \<Rightarrow> string"

fun nullish :: "'n jsvalue \<Rightarrow> bool" where
  "nullish JUndefined = True"
| "nullish JNull = True"
| "nullish _ = False"

fun truthy :: "'n platform \<Rightarrow> 'n jsvalue \<Rightarrow> bool" where
  "truthy p JUndefined = False"
| "truthy p JNull = False"
| "truthy p (JBoolean b) = b"
| "truthy p (JNumber n) = Number_truthy p n"
| "truthy p (JString s) = (s \<noteq> [])"
| "truthy p (JArray xs) = True"
| "truthy p (JObject kvs) = True"

text \<open>
  \<^verbatim>\<open>v.k\<close> for a value that is neither null nor undefined and a name \<open>k\<close> that no
  prototype defines (\<^verbatim>\<open>choices\<close>, \<^verbatim>\<open>delta\<close>, \<^verbatim>\<open>content\<close>): the own property of an
  object, where a later duplicate member overrides an earlier one, and undefined on
  everything else.
\<close>

fun getMember :: "'n jsvalue \<Rightarrow> string \<Rightarrow> 'n jsvalue" where
  "getMember (JObject kvs) k = (case map_of (rev kvs) k of Some v \<Rightarrow> v | None \<Rightarrow> JUndefined)"
| "getMember _ k = JUndefined"

text \<open>\<^verbatim>\<open>v[0]\<close> for a value that is neither null nor undefined.\<close>

fun element0 :: "'n jsvalue \<Rightarrow> 'n jsvalue" where
  "element0 (JArray xs) = (case xs of [] \<Rightarrow> JUndefined | x # _ \<Rightarrow> x)"
| "element0 (JString s) = (case s of [] \<Rightarrow> JUndefined | c # _ \<Rightarrow> JString [c])"
| "element0 (JObject kvs) = getMember (JObject kvs) ''0''"
| "element0 _ = JUndefined"

text \<open>Optional chaining \<^verbatim>\<open>v?.\<close> stops at null and undefined.\<close>

definition optional :: "('n jsvalue \<Rightarrow> 'n jsvalue) \<Rightarrow> 'n jsvalue \<Rightarrow> 'n jsvalue" where
  "optional access v = (if nullish v then JUndefined else access v)"

fun join :: "string \<Rightarrow> string list \<Rightarrow> string" where
  "join sep [] = []"
| "join sep [x] = x"
| "join sep (x # y # ys) = x @ sep @ join sep (y # ys)"

text \<open>
  The string that \<^verbatim>\<open>fullText += content\<close> appends: the value itself for a string, and
  the platform's conversion otherwise (an array joins its elements with commas, null and
  undefined elements as empty strings).
\<close>

fun toString :: "'n platform \<Rightarrow> 'n jsvalue \<Rightarrow> string" where
  "toString p JUndefined = ''undefined''"
| "toString p JNull = ''null''"
| "toString p (JBoolean b) = (if b then ''true'' else ''false'')"
| "toString p (JNumber n) = Number_toString p n"
| "toString p (JString s) = s"
| "toString p (JArray xs) = join '','' (map (\<lambda>x. if nullish x then [] else toString p x) xs)"
| "toString p (JObject kvs) = ''[object Object]''"

section \<open>String operations of the platform\<close>

definition startsWith :: "string \<Rightarrow> string \<Rightarrow> bool" where
  "startsWith s pre = (take (length pre) s = pre)"

text \<open>
  \<^verbatim>\<open>s.replace(pat, rep)\<close> with string arguments replaces the first occurrence of
  \<open>pat\<close>; \<open>rep\<close> is taken literally when it has no \<^verbatim>\<open>$\<close>.
\<close>

fun replace :: "string \<Rightarrow> string \<Rightarrow> string \<Rightarrow> string" where
  "replace [] pat rep = (if pat = [] then rep else [])"
| "replace (c # cs) pat rep =
     (if startsWith (c # cs) pat then rep @ drop (length pat) (c # cs)
      else c # replace cs pat rep)"

text \<open>White space and line terminators below code unit 256, which \<^verbatim>\<open>trim\<close> strips.\<close>

definition isWhiteSpace :: "char \<Rightarrow> bool" where
  "isWhiteSpace c =
     (c \<in> set [CHR 0x09, CHR 0x0A, CHR 0x0B, CHR 0x0C, CHR 0x0D, CHR 0x20, CHR 0xA0])"

definition trim :: "string \<Rightarrow> string" where
  "trim s = rev (dropWhile isWhiteSpace (rev (dropWhile isWhiteSpace s)))"

text \<open>\<^verbatim>\<open>s.split('\n')\<close>: the pieces between line feeds, one more than there are line feeds.\<close>

fun split_newline :: "string \<Rightarrow> string list" where
  "split_newline [] = [[]]"
| "split_newline (c # cs) =
     (if c = CHR 0x0A then [] # split_newline cs
      else (case split_newline cs of
              [] \<Rightarrow> [[c]]
            | l # ls \<Rightarrow> (c # l) # ls))"

text \<open>\<^verbatim>\<open>lines.pop()\<close>: the last element (undefined on an empty array) and the array left.\<close>

definition pop :: "'a list \<Rightarrow> 'a option \<times> 'a list" where
  "pop xs = (if xs = [] then (None, []) else (Some (last xs), butlast xs))"

text \<open>The decimal digits of a number, as a template literal renders an integer.\<close>

fun showNat :: "nat \<Rightarrow> string" where
  "showNat n =
     (if n < 10 then [char_of (48 + n)]
      else showNat (n div 10) @ [char_of (48 + n mod 10)])"

declare showNat.simps [simp del]

section \<open>A JSON parser\<close>

text \<open>
  A parser for the JSON grammar, as an instance of the platform's \<^verbatim>\<open>JSON.parse\<close>. A number is
  kept as its lexeme. The escape \<^verbatim>\<open>\uXXXX\<close> is read for code units below 256, the only
  ones a character holds here.
\<close>

definition isJsonSpace :: "char \<Rightarrow> bool" where
  "isJsonSpace c = (c \<in> set [CHR 0x20, CHR 0x09, CHR 0x0A, CHR 0x0D])"

definition skipSpace :: "string \<Rightarrow> string" where
  "skipSpace cs = dropWhile isJsonSpace cs"

definition isDigit :: "char \<Rightarrow> bool" where
  "isDigit c = (48 \<le> (of_char c :: nat) \<and> (of_char c :: nat) \<le> 57)"

definition hexValue :: "char \<Rightarrow> nat option" where
  "hexValue c =
     (let n = (of_char c :: nat) in
      if 48 \<le> n \<and> n \<le> 57 then Some (n - 48)
      else if 65 \<le> n \<and> n \<le> 70 then Some (n - 55)
      else if 97 \<le> n \<and> n \<le> 102 then Some (n - 87)
      else None)"

definition unescape :: "char \<Rightarrow> char option" where
  "unescape e =
     (if e = CHR 0x22 then Some (CHR 0x22)
      else if e = CHR 0x5C then Some (CHR 0x5C)
      else if e = CHR ''/'' then Some (CHR ''/'')
      else if e = CHR ''b'' then Some (CHR 0x08)
      else if e = CHR ''f'' then Some (CHR 0x0C)
      else if e = CHR ''n'' then Some (CHR 0x0A)
      else if e = CHR ''r'' then Some (CHR 0x0D)
      else if e = CHR ''t'' then Some (CHR 0x09)
      else None)"

text \<open>The characters of a string after its opening quote, up to the closing one.\<close>

fun parseChars :: "string \<Rightarrow> (string \<times> string) option" where
  "parseChars [] = None"
| "parseChars [c] = (if c = CHR 0x22 then Some ([], []) else None)"
| "parseChars (c # e # cs) =
     (if c = CHR 0x22 then Some ([], e # cs)
      else if c = CHR 0x5C then
        (if e = CHR ''u'' then
           (case map hexValue (take 4 cs) of
              [Some h1, Some h2, Some h3, Some h4] \<Rightarrow>
                (if h1 = 0 \<and> h2 = 0
                 then map_option (apfst ((#) (char_of (16 * h3 + h4)))) (parseChars (drop 4 cs))
                 else None)
            | _ \<Rightarrow> None)
         else (case unescape e of
                 None \<Rightarrow> None
               | Some x \<Rightarrow> map_option (apfst ((#) x)) (parseChars cs)))
      else if (of_char c :: nat) < 32 then None
      else map_option (apfst ((#) c)) (parseChars (e # cs)))"

definition digitsOf :: "string \<Rightarrow> string \<times> string" where
  "digitsOf cs = (takeWhile isDigit cs, dropWhile isDigit cs)"

definition parseNumber :: "string \<Rightarrow> (string \<times> string) option" where
  "parseNumber cs =
     (let (sign, r0) = (if cs \<noteq> [] \<and> hd cs = CHR ''-'' then (''-'', tl cs) else ([], cs));
          (whole, r1) = (if r0 \<noteq> [] \<and> hd r0 = CHR ''0'' then (''0'', tl r0) else digitsOf r0)
      in if whole = [] then None
         else
           (case (if r1 \<noteq> [] \<and> hd r1 = CHR ''.''
                  then (let (ds, r) = digitsOf (tl r1)
                        in if ds = [] then None else Some (''.'' @ ds, r))
                  else Some ([], r1)) of
              None \<Rightarrow> None
            | Some (fraction, r2) \<Rightarrow>
                (if r2 \<noteq> [] \<and> (hd r2 = CHR ''e'' \<or> hd r2 = CHR ''E'')
                 then (let r3 = tl r2;
                           (esign, r4) = (if r3 \<noteq> [] \<and> (hd r3 = CHR ''+'' \<or> hd r3 = CHR ''-'')
                                          then ([hd r3], tl r3) else ([], r3));
                           (ds, r5) = digitsOf r4
                       in if ds = [] then None
                          else Some (sign @ whole @ fraction @ [hd r2] @ esign @ ds, r5))
                 else Some (sign @ whole @ fraction, r2))))"

text \<open>
  The recursive descent. The first argument bounds the number of nested calls, each of
  which is on a shorter input; \<open>parseJSON\<close> starts with more than twice the length of
  the text.
\<close>

fun parseValue :: "nat \<Rightarrow> string \<Rightarrow> (string jsvalue \<times> string) option"
and parseElements :: "nat \<Rightarrow> string \<Rightarrow> (string jsvalue list \<times> string) option"
and parseMembers :: "nat \<Rightarrow> string \<Rightarrow> ((string \<times> string jsvalue) list \<times> string) option" where
  "parseValue 0 cs = None"
| "parseValue (Suc n) cs =
     (let s = skipSpace cs in
      if s = [] then None
      else if hd s = CHR ''{'' then
        (if skipSpace (tl s) \<noteq> [] \<and> hd (skipSpace (tl s)) = CHR ''}''
         then Some (JObject [], tl (skipSpace (tl s)))
         else map_option (apfst JObject) (parseMembers n (tl s)))
      else if hd s = CHR ''['' then
        (if skipSpace (tl s) \<noteq> [] \<and> hd (skipSpace (tl s)) = CHR '']''
         then Some (JArray [], tl (skipSpace (tl s)))
         else map_option (apfst JArray) (parseElements n (tl s)))
      else if hd s = CHR 0x22 then map_option (apfst JString) (parseChars (tl s))
      else if startsWith s ''true'' then Some (JBoolean True, drop 4 s)
      else if startsWith s ''false'' then Some (JBoolean False, drop 5 s)
      else if startsWith s ''null'' then Some (JNull, drop 4 s)
      else map_option (apfst JNumber) (parseNumber s))"
| "parseElements 0 cs = None"
| "parseElements (Suc n) cs =
     (case parseValue n cs of
        None \<Rightarrow> None
      | Some (v, r) \<Rightarrow>
          (let s = skipSpace r in
           if s = [] then None
           else if hd s = CHR '','' then map_option (apfst ((#) v)) (parseElements n (tl s))
           else if hd s = CHR '']'' then Some ([v], tl s)
           else None))"
| "parseMembers 0 cs = None"
| "parseMembers (Suc n) cs =
     (let s = skipSpace cs in
      if s = [] \<or> hd s \<noteq> CHR 0x22 then None
      else
        (case parseChars (tl s) of
           None \<Rightarrow> None
         | Some (k, r) \<Rightarrow>
             (let s1 = skipSpace r in
              if s1 = [] \<or> hd s1 \<noteq> CHR '':'' then None
              else
                (case parseValue n (tl s1) of
                   None \<Rightarrow> None
                 | Some (v, r2) \<Rightarrow>
                     (let s2 = skipSpace r2 in
                      if s2 = [] then None
                      else if hd s2 = CHR '','' then
                        map_option (apfst ((#) (k, v))) (parseMembers n (tl s2))
                      else if hd s2 = CHR ''}'' then Some ([(k, v)], tl s2)
                      else None)))))"

definition parseJSON :: "string \<Rightarrow> string jsvalue option" where
  "parseJSON text =
     (case parseValue (2 * length text + 2) text of
        None \<Rightarrow> None
      | Some (v, r) \<Rightarrow> if skipSpace r = [] then Some v else None)"

text \<open>
  The platform with this parser. Its number operations are those of the platform on integer
  lexemes in the usual notation (no sign on zero, no exponent, an exactly representable
  value): a number is true when a digit of its mantissa is not zero, and its string is its
  lexeme.
\<close>

definition mantissa :: "string \<Rightarrow> string" where
  "mantissa l = takeWhile (\<lambda>c. c \<noteq> CHR ''e'' \<and> c \<noteq> CHR ''E'') l"

definition lexemePlatform :: "string platform" where
  "lexemePlatform =
     \<lparr> JSON_parse = parseJSON,
       Number_truthy = (\<lambda>l. \<exists>c \<in> set (mantissa l). isDigit c \<and> c \<noteq> CHR ''0''),
       Number_toString = (\<lambda>l. l) \<rparr>"

section \<open>OpenAI-compatible adapter (streamOpenAI)\<close>

text \<open>
  A response of \<^verbatim>\<open>fetch\<close>: its status, what \<^verbatim>\<open>response.text()\<close> settles with, and what
  \<^verbatim>\<open>response.body?.getReader()\<close> gives (\<open>None\<close> without a body). Each item of the
  reader's stream stands for one read that delivered a value, and is the text that
  \<^verbatim>\<open>decoder.decode(value, {stream: true})\<close> returns for it (\<open>decodeReads\<close> below relates
  it to the bytes).
\<close>

record http_response =
  status :: nat
  response_text :: "error + string"
  response_body :: "string stream option"

definition ok :: "http_response \<Rightarrow> bool" where
  "ok r = (200 \<le> status r \<and> status r \<le> 299)"

definition apiMessage :: "ChatMessage \<Rightarrow> api_message" where
  "apiMessage msg =
     \<lparr> api_role = (if role msg = MODEL then ''assistant'' else ''user''),
       api_content = msg_text msg \<rparr>"

definition messagesWithSystem :: "ChatMessage list \<Rightarrow> string \<Rightarrow> api_message list" where
  "messagesWithSystem hist newMessage =
     [\<lparr> api_role = ''system'',
        api_content = ''You are a helpful, professional AI assistant. Output in Markdown.'' \<rparr>]
     @ (map apiMessage hist @ [\<lparr> api_role = ''user'', api_content = newMessage \<rparr>])"

text \<open>An optional string inside a template literal.\<close>

definition interpolate :: "string option \<Rightarrow> string" where
  "interpolate s = (case s of None \<Rightarrow> ''undefined'' | Some t \<Rightarrow> t)"

text \<open>The request of the \<^verbatim>\<open>fetch\<close> call; its body is the object given to \<^verbatim>\<open>JSON.stringify\<close>.\<close>

definition chatRequest :: "ChatMessage list \<Rightarrow> string \<Rightarrow> AIProvider \<Rightarrow> http_request" where
  "chatRequest hist newMessage provider =
     \<lparr> url = interpolate (baseUrl provider) @ ''/chat/completions'',
       http_method = ''POST'',
       headers = [(''Content-Type'', ''application/json''),
                  (''Authorization'', ''Bearer '' @ interpolate (apiKey provider))],
       body = \<lparr> body_model = modelId provider,
                messages = messagesWithSystem hist newMessage,
                stream = True,
                body_temperature = 7 / 10,
                max_tokens = 4000 \<rparr> \<rparr>"

text \<open>
  The bytes of the reads and the decoder. \<^verbatim>\<open>decoder.decode(value, {stream: true})\<close> is a
  function of the decoder's state and the bytes of one read, giving the decoded text and
  the next state; \<open>decodeReads\<close> is the list of the texts it returns for successive reads.
  A streaming decoder returns for two reads in a row what it returns for their bytes in one
  read (it carries an incomplete byte sequence over to the next read), and nothing for no
  bytes. \<open>decodedText\<close> is the text of all the bytes read.
\<close>

type_synonym bytes = "8 word list"

fun decodeReads :: "('d \<Rightarrow> bytes \<Rightarrow> string \<times> 'd) \<Rightarrow> 'd \<Rightarrow> bytes list \<Rightarrow> string list" where
  "decodeReads decode d [] = []"
| "decodeReads decode d (v # vs) =
     (let (t, d') = decode d v in t # decodeReads decode d' vs)"

definition streamingDecoder :: "('d \<Rightarrow> bytes \<Rightarrow> string \<times> 'd) \<Rightarrow> bool" where
  "streamingDecoder decode =
     ((\<forall>d. decode d [] = ([], d)) \<and>
      (\<forall>d a b. decode d (a @ b) =
         (let (t, d') = decode d a; (u, d'') = decode d' b in (t @ u, d''))))"

definition decodedText :: "('d \<Rightarrow> bytes \<Rightarrow> string \<times> 'd) \<Rightarrow> 'd \<Rightarrow> bytes list \<Rightarrow> string" where
  "decodedText decode d vs = fst (decode d (concat vs))"

text \<open>
  The variables of the read loop, with two logs: the arguments of the \<^verbatim>\<open>onChunk\<close>
  invocations and the arguments of the calls of \<^verbatim>\<open>JSON.parse\<close>.
\<close>

record sse_state =
  fullText :: string
  buffer :: string
  reported :: "string list"
  parsed :: "string list"

text \<open>
  \<^verbatim>\<open>json.choices?.[0]?.delta?.content || ''\<close>. Reading \<^verbatim>\<open>choices\<close> of null throws a
  TypeError.
\<close>

definition deltaContent :: "'n platform \<Rightarrow> 'n jsvalue \<Rightarrow> error + 'n jsvalue" where
  "deltaContent p json =
     (if nullish json then Inl (Error ''TypeError'')
      else
        let c = optional (\<lambda>v. getMember v ''content'')
                  (optional (\<lambda>v. getMember v ''delta'')
                     (optional element0 (getMember json ''choices'')))
        in Inr (if truthy p c then c else JString []))"

text \<open>
  The body of \<^verbatim>\<open>for (const line of lines)\<close>. Whatever the \<^verbatim>\<open>try\<close> block throws is
  caught and dropped.
\<close>

definition processLine :: "'n platform \<Rightarrow> sse_state \<Rightarrow> string \<Rightarrow> sse_state" where
  "processLine p st line =
     (let trimmed = trim line in
      if startsWith trimmed ''data: '' \<and> trimmed \<noteq> ''data: [DONE]'' then
        let payload = replace trimmed ''data: '' [];
            st' = st\<lparr> parsed := parsed st @ [payload] \<rparr>
        in (case JSON_parse p payload of
              None \<Rightarrow> st'
            | Some json \<Rightarrow>
                (case deltaContent p json of
                   Inl e \<Rightarrow> st'
                 | Inr content \<Rightarrow>
                     if truthy p content
                     then st'\<lparr> fullText := fullText st @ toString p content,
                               reported := reported st @ [fullText st @ toString p content] \<rparr>
                     else st'))
      else st)"

text \<open>The body of \<^verbatim>\<open>if (value)\<close> for one read.\<close>

definition onValue :: "'n platform \<Rightarrow> sse_state \<Rightarrow> string \<Rightarrow> sse_state" where
  "onValue p st chunk =
     (let (popped, lines) = pop (split_newline (buffer st @ chunk));
          kept = (case popped of None \<Rightarrow> [] | Some l \<Rightarrow> l)
      in foldl (processLine p) (st\<lparr> buffer := kept \<rparr>) lines)"

text \<open>The \<^verbatim>\<open>while (!done)\<close> loop over the reads that deliver a value.\<close>

fun readLoop :: "'n platform \<Rightarrow> sse_state \<Rightarrow> string list \<Rightarrow> sse_state" where
  "readLoop p st [] = st"
| "readLoop p st (chunk # rest) = readLoop p (onValue p st chunk) rest"

definition initial :: sse_state where
  "initial = \<lparr> fullText = [], buffer = [], reported = [], parsed = [] \<rparr>"

definition failed :: "error \<Rightarrow> http_request list \<Rightarrow> run" where
  "failed e reqs = \<lparr> outcome = Inl e, onChunk_calls = [], sdk_calls = [],
                     fetch_calls = reqs, parse_calls = [] \<rparr>"

text \<open>
  \<^verbatim>\<open>streamOpenAI\<close>. \<open>fetched\<close> is what \<^verbatim>\<open>fetch\<close> does for this call: it rejects, or it
  resolves with a response. The outer \<^verbatim>\<open>catch\<close> logs and rethrows.
\<close>

definition streamOpenAI ::
  "'n platform \<Rightarrow> (error + http_response) \<Rightarrow>
   ChatMessage list \<Rightarrow> string \<Rightarrow> AIProvider \<Rightarrow> run" where
  "streamOpenAI p fetched hist newMessage provider =
     (if \<not> truthy_string (apiKey provider) \<or> \<not> truthy_string (baseUrl provider)
      then failed (Error ''API Key or Base URL missing for custom provider.'') []
      else
        let reqs = [chatRequest hist newMessage provider] in
        (case fetched of
           Inl e \<Rightarrow> failed e reqs
         | Inr response \<Rightarrow>
             if \<not> ok response then
               (case response_text response of
                  Inl e \<Rightarrow> failed e reqs
                | Inr err \<Rightarrow>
                    failed (Error (''Provider Error ('' @ showNat (status response)
                                   @ ''): '' @ err)) reqs)
             else
               (case response_body response of
                  None \<Rightarrow> failed (Error ''No response body'') reqs
                | Some reader \<Rightarrow>
                    let st = readLoop p initial (items reader)
                    in \<lparr> outcome = (case failure reader of
                                        Some e \<Rightarrow> Inl e | None \<Rightarrow> Inr (fullText st)),
                         onChunk_calls = reported st, sdk_calls = [],
                         fetch_calls = reqs, parse_calls = parsed st \<rparr>)))"

section \<open>Facade and image generation\<close>

definition streamChatResponse ::
  "'n platform \<Rightarrow> string option \<Rightarrow> (error + string option stream) \<Rightarrow>
   (error + http_response) \<Rightarrow>
   ChatMessage list \<Rightarrow> string \<Rightarrow> string list \<Rightarrow> AIProvider \<Rightarrow> run" where
  "streamChatResponse p API_KEY sent fetched hist newMessage newImages provider =
     (if provider_type provider = gemini
      then streamGemini API_KEY sent hist newMessage newImages (modelId provider)
      else streamOpenAI p fetched hist newMessage provider)"

text \<open>The response of \<^verbatim>\<open>ai.models.generateImages\<close>, every level optional as the code reads it.\<close>

record Image =
  imageBytes :: "string option"

text \<open>The field \<^verbatim>\<open>image\<close> of a generated image is \<open>generated_image\<close> here.\<close>

record GeneratedImage =
  generated_image :: "Image option"

record GenerateImagesResponse =
  generatedImages :: "GeneratedImage list option"

text \<open>\<^verbatim>\<open>response.generatedImages?.[0]?.image?.imageBytes\<close>\<close>

definition firstImageBytes :: "GenerateImagesResponse \<Rightarrow> string option" where
  "firstImageBytes response =
     (case generatedImages response of
        None \<Rightarrow> None
      | Some [] \<Rightarrow> None
      | Some (g # gs) \<Rightarrow> (case generated_image g of None \<Rightarrow> None | Some i \<Rightarrow> imageBytes i))"

text \<open>
  \<^verbatim>\<open>generateImage\<close>. \<open>generated\<close> is what \<^verbatim>\<open>ai.models.generateImages\<close> does for this
  call; an absent \<open>aspectRatio\<close> takes the default.
\<close>

definition generateImage ::
  "string option \<Rightarrow> (error + GenerateImagesResponse) \<Rightarrow> string \<Rightarrow> string option \<Rightarrow> run" where
  "generateImage API_KEY generated prompt_text ratio =
     (case getGeminiClient API_KEY of
        Inl e \<Rightarrow> \<lparr> outcome = Inl e, onChunk_calls = [], sdk_calls = [],
                   fetch_calls = [], parse_calls = [] \<rparr>
      | Inr ai \<Rightarrow>
          let calls = [GenerateImages
                         \<lparr> image_model = IMAGEN, prompt = prompt_text, numberOfImages = 1,
                           outputMimeType = ''image/jpeg'',
                           aspectRatio = (case ratio of None \<Rightarrow> ''1:1'' | Some a \<Rightarrow> a) \<rparr>]
          in \<lparr> outcome =
                 (case generated of
                    Inl e \<Rightarrow> Inl e
                  | Inr response \<Rightarrow>
                      (case firstImageBytes response of
                         None \<Rightarrow> Inl (Error ''No image generated'')
                       | Some base64EncodeString \<Rightarrow>
                           if base64EncodeString = [] then Inl (Error ''No image generated'')
                           else Inr (''data:image/jpeg;base64,'' @ base64EncodeString))),
               onChunk_calls = [], sdk_calls = calls, fetch_calls = [], parse_calls = [] \<rparr>)"

section \<open>The caller (App.tsx, handleSendChat)\<close>

text \<open>
  The new user message and the arguments \<^verbatim>\<open>handleSendChat\<close> gives the facade;
  \<open>now\<close> is the value of \<^verbatim>\<open>Date.now()\<close>.
\<close>

definition newUserMsg :: "nat \<Rightarrow> string \<Rightarrow> string list \<Rightarrow> ChatMessage" where
  "newUserMsg now input attachedImages =
     \<lparr> msg_id = showNat now, role = USER, msg_text = input, timestamp = now,
       images = Some attachedImages, isError = None \<rparr>"

text \<open>
  \<^verbatim>\<open>handleSendChat\<close> up to the end of the call of the facade: \<open>None\<close> when one of the
  two guards returns before the call.
\<close>

definition handleSendChat ::
  "'n platform \<Rightarrow> string option \<Rightarrow> (error + string option stream) \<Rightarrow>
   (error + http_response) \<Rightarrow>
   nat \<Rightarrow> ChatMessage list \<Rightarrow> string \<Rightarrow> string list \<Rightarrow> bool \<Rightarrow> AIProvider \<Rightarrow> run option" where
  "handleSendChat p API_KEY sent fetched now msgs input attachedImages isLoading activeProvider =
     (if (trim input = [] \<and> length attachedImages = 0) \<or> isLoading then None
      else if isSystem activeProvider \<noteq> Some True \<and> \<not> truthy_string (apiKey activeProvider)
      then None
      else
        let m = newUserMsg now input attachedImages
        in Some (streamChatResponse p API_KEY sent fetched (msgs @ [m]) (msg_text m)
                   (case images m of None \<Rightarrow> [] | Some is \<Rightarrow> is) activeProvider))"

section \<open>Definitions used in the statements\<close>

text \<open>
  The texts of the chunks that carry a non-empty text, in order.
\<close>

fun textsOf :: "string option list \<Rightarrow> string list" where
  "textsOf [] = []"
| "textsOf (None # cs) = textsOf cs"
| "textsOf (Some t # cs) = (if t = [] then textsOf cs else t # textsOf cs)"

text \<open>
  The images of a turn: none when the field is absent.
\<close>

definition imagesOf :: "ChatMessage \<Rightarrow> string list" where
  "imagesOf msg = (case images msg of None \<Rightarrow> [] | Some is \<Rightarrow> is)"

text \<open>
  The lines of a body text that a line feed terminates, and what follows the last line
  feed.
\<close>

definition completeLines :: "string \<Rightarrow> string list" where
  "completeLines body_text = butlast (split_newline body_text)"

definition unterminated :: "string \<Rightarrow> string" where
  "unterminated body_text = last (split_newline body_text)"

text \<open>
  A line on which the adapter calls \<^verbatim>\<open>JSON.parse\<close>, and the text it passes.
\<close>

definition isDataLine :: "string \<Rightarrow> bool" where
  "isDataLine l = (startsWith (trim l) ''data: '' \<and> trim l \<noteq> ''data: [DONE]'')"

definition payloadOf :: "string \<Rightarrow> string" where
  "payloadOf l = replace (trim l) ''data: '' []"

text \<open>
  The body text made of the given lines, each followed by a line feed.
\<close>

definition terminated :: "string list \<Rightarrow> string" where
  "terminated ls = concat (map (\<lambda>l. l @ [CHR 0x0A]) ls)"

text \<open>
  The number that a string of decimal digits denotes.
\<close>

definition decimalValue :: "string \<Rightarrow> nat" where
  "decimalValue ds = foldl (\<lambda>a c. 10 * a + (of_char c - 48)) 0 ds"

text \<open>
  The value of the JSON text \<^verbatim>\<open>{"choices":[{"delta":{"content":c}}]}\<close>.
\<close>

definition deltaObject :: "string \<Rightarrow> 'n jsvalue" where
  "deltaObject c =
     JObject [(''choices'', JArray [JObject [(''delta'', JObject [(''content'', JString c)])]])]"

text \<open>
  The message lists of the requests a run made, and the histories and messages it gave
  the vendor SDK.
\<close>

definition systemMessage :: api_message where
  "systemMessage =
     \<lparr> api_role = ''system'',
       api_content = ''You are a helpful, professional AI assistant. Output in Markdown.'' \<rparr>"

definition requestMessages :: "run \<Rightarrow> api_message list list" where
  "requestMessages r = map (\<lambda>req. messages (body req)) (fetch_calls r)"

definition chatHistories :: "run \<Rightarrow> content list list" where
  "chatHistories r =
     concat (map (\<lambda>c. case c of ChatsCreate params \<Rightarrow> [history params] | _ \<Rightarrow> []) (sdk_calls r))"

definition sentMessages :: "run \<Rightarrow> message list" where
  "sentMessages r =
     concat (map (\<lambda>c. case c of SendMessageStream m \<Rightarrow> [m] | _ \<Rightarrow> []) (sdk_calls r))"

subsection \<open>Sample inputs\<close>

definition sampleHistory :: "ChatMessage list" where
  "sampleHistory =
     [\<lparr> msg_id = ''1'', role = USER, msg_text = ''look'', timestamp = 1,
         images = Some [''AAAA'', ''BBBB''], isError = None \<rparr>,
      \<lparr> msg_id = ''2'', role = MODEL, msg_text = ''nice'', timestamp = 2,
         images = None, isError = None \<rparr>,
      \<lparr> msg_id = ''3'', role = USER, msg_text = ''more'', timestamp = 3,
         images = Some [], isError = None \<rparr>]"

definition sampleProvider :: AIProvider where
  "sampleProvider =
     \<lparr> provider_id = ''deepseek-chat'', provider_name = ''DeepSeek V3'',
       provider_type = openai, baseUrl = Some ''https://api.deepseek.com'',
       apiKey = Some ''sk-test'', modelId = ''deepseek-chat'', isSystem = Some False \<rparr>"

definition geminiProvider :: AIProvider where
  "geminiProvider =
     \<lparr> provider_id = ''gemini-flash'', provider_name = ''Gemini 2.5 Flash'',
       provider_type = gemini, baseUrl = None, apiKey = None,
       modelId = ''gemini-2.5-flash'', isSystem = Some True \<rparr>"

definition noKeyProvider :: AIProvider where
  "noKeyProvider = sampleProvider\<lparr> apiKey := None \<rparr>"

definition emptyUrlProvider :: AIProvider where
  "emptyUrlProvider = sampleProvider\<lparr> baseUrl := Some [] \<rparr>"

text \<open>
  A decoder for bytes below 128, where it agrees with the platform's UTF-8 decoder, and
  the bytes of a text.
\<close>

definition asciiDecoder :: "unit \<Rightarrow> bytes \<Rightarrow> string \<times> unit" where
  "asciiDecoder d v = (map (\<lambda>b. char_of (unat b)) v, d)"

definition bytesOf :: "string \<Rightarrow> bytes" where
  "bytesOf s = map (\<lambda>c. of_nat (of_char c)) s"

text \<open>
  A successful response whose reader delivers the given reads.
\<close>

definition streamingResponse :: "string list \<Rightarrow> http_response" where
  "streamingResponse chunks =
     \<lparr> status = 200, response_text = Inr (concat chunks),
       response_body = Some (Stream chunks None) \<rparr>"

text \<open>
  The body of claim C2 in one piece, the same body in three reads that split two of its
  lines, a line that no line feed ends, and a line with a truncated JSON text.
\<close>

definition sampleBody :: string where
  \<open>sampleBody =
     ''data: {"choices":[{"delta":{"content":"Hi"}}]}'' @ [CHR 0x0A]
     @ ''data: {"choices":[{"delta":{"content":" there"}}]}'' @ [CHR 0x0A]
     @ ''data: [DONE]'' @ [CHR 0x0A]\<close>

definition sampleReads :: "string list" where
  \<open>sampleReads =
     [''data: {"choices":[{"del'',
      ''ta":{"content":"Hi"}}]}'' @ [CHR 0x0A] @ ''data: {"choices":[{"delta":{"content":" there"}}]}''
        @ [CHR 0x0A] @ ''data: [DO'',
      ''NE]'' @ [CHR 0x0A]]\<close>

definition lostLine :: string where
  \<open>lostLine = ''data: {"choices":[{"delta":{"content":" lost"}}]}''\<close>

definition malformedLine :: string where
  \<open>malformedLine = ''data: {"choices":[{"delta":''\<close>

definition malformedBody :: string where
  \<open>malformedBody =
     ''data: {"choices":[{"delta":{"content":"Hi"}}]}'' @ [CHR 0x0A]
     @ malformedLine @ [CHR 0x0A]
     @ ''data: {"choices":[{"delta":{"content":" there"}}]}'' @ [CHR 0x0A]
     @ ''data: [DONE]'' @ [CHR 0x0A]\<close>

definition notFoundResponse :: http_response where
  "notFoundResponse =
     \<lparr> status = 404, response_text = Inr ''model not found'',
       response_body = Some (Stream [sampleBody] None) \<rparr>"

definition imageResponse :: "string \<Rightarrow> GenerateImagesResponse" where
  "imageResponse bytes =
     \<lparr> generatedImages = Some [\<lparr> generated_image = Some \<lparr> imageBytes = Some bytes \<rparr> \<rparr>] \<rparr>"

definition emptyImageResponse :: GenerateImagesResponse where
  "emptyImageResponse = \<lparr> generatedImages = Some [] \<rparr>"

section \<open>Properties of the managed-protocol adapter\<close>

text \<open>Index-shifted form of a map over an initial segment of the naturals.\<close>

lemma upt_shift: "map f [0..<Suc n] = f 0 # map (\<lambda>k. f (Suc k)) [0..<n]"
proof -
  have "[0..<Suc n] = 0 # map Suc [0..<n]"
    by (simp only: upt_conv_Cons zero_less_Suc map_Suc_upt)
  then show ?thesis by (simp add: comp_def del: upt_Suc)
qed

text \<open>
  The loop appends: from any state it adds the non-empty texts to the running total and
  reports every intermediate total.
\<close>

lemma consumeChunks_totals:
  "consumeChunks (r, calls) cs =
     (r @ concat (textsOf cs),
      calls @ map (\<lambda>k. r @ concat (take (Suc k) (textsOf cs))) [0..<length (textsOf cs)])"
proof (induction cs arbitrary: r calls)
  case Nil
  show ?case by simp
next
  case (Cons c cs)
  show ?case
  proof (cases c)
    case None
    then show ?thesis using Cons.IH by simp
  next
    case (Some t)
    show ?thesis
    proof (cases "t = []")
      case True
      then show ?thesis using Some Cons.IH by simp
    next
      case False
      have "map (\<lambda>k. r @ concat (take (Suc k) (t # textsOf cs))) [0..<Suc (length (textsOf cs))]
            = (r @ t) # map (\<lambda>k. (r @ t) @ concat (take (Suc k) (textsOf cs))) [0..<length (textsOf cs)]"
        by (subst upt_shift) simp
      then show ?thesis using False Some Cons.IH [of "r @ t" "calls @ [r @ t]"] by simp
    qed
  qed
qed

lemma getGeminiClient_truthy:
  assumes "truthy_string API_KEY"
  obtains k where "API_KEY = Some k" and "k \<noteq> []" and "getGeminiClient API_KEY = Inr k"
  using assms by (cases API_KEY) (auto simp: getGeminiClient_def)

lemma streamGemini_sdk_calls:
  assumes "truthy_string API_KEY"
  shows "sdk_calls (streamGemini API_KEY sent hist newMessage newImages modelName) =
           [ChatsCreate \<lparr> model = modelName, history = prevHistory hist, temperature = 7 / 10,
              systemInstruction = ''You are a helpful, professional AI assistant in a studio application. Use Markdown for formatting.'' \<rparr>,
            SendMessageStream (outgoingMessage (newParts newMessage newImages))]"
proof -
  obtain k where g: "getGeminiClient API_KEY = Inr k"
    using assms by (rule getGeminiClient_truthy)
  show ?thesis
    unfolding streamGemini_def g
    by (cases sent) (simp_all add: Let_def split: prod.splits)
qed

lemma streamGemini_stream:
  assumes "truthy_string API_KEY"
  shows "onChunk_calls (streamGemini API_KEY (Inr (Stream cs f)) hist newMessage newImages modelName)
           = snd (consumeChunks ([], []) cs)"
    and "outcome (streamGemini API_KEY (Inr (Stream cs f)) hist newMessage newImages modelName)
           = (case f of Some e \<Rightarrow> Inl e | None \<Rightarrow> Inr (fst (consumeChunks ([], []) cs)))"
proof -
  obtain k where g: "getGeminiClient API_KEY = Inr k"
    using assms by (rule getGeminiClient_truthy)
  show "onChunk_calls (streamGemini API_KEY (Inr (Stream cs f)) hist newMessage newImages modelName)
           = snd (consumeChunks ([], []) cs)"
    unfolding streamGemini_def g by (simp add: Let_def case_prod_beta)
  show "outcome (streamGemini API_KEY (Inr (Stream cs f)) hist newMessage newImages modelName)
           = (case f of Some e \<Rightarrow> Inl e | None \<Rightarrow> Inr (fst (consumeChunks ([], []) cs)))"
    unfolding streamGemini_def g by (simp add: Let_def case_prod_beta)
qed

lemma historyEntry_parts:
  "parts (historyEntry msg) = TextPart (msg_text msg) # map inlineImage (imagesOf msg)"
  by (simp add: historyEntry_def imagesOf_def split: option.splits list.splits)

text \<open>
  Claim C1 as the specification states it: for chunks with the texts \<^verbatim>\<open>Hi\<close>, \<^verbatim>\<open>Hi there\<close>,
  \<^verbatim>\<open>Hi there!\<close> the callback would receive exactly these three strings and the call would
  resolve with \<^verbatim>\<open>Hi there!\<close>, each chunk replacing the running total. The code appends
  (\<^verbatim>\<open>responseText += c.text\<close>), so this does not hold.
\<close>

theorem streamGemini_replacement_counterexample:
  "\<not> (onChunk_calls (streamGemini (Some ''key'')
          (Inr (Stream [Some ''Hi'', Some ''Hi there'', Some ''Hi there!''] None))
          [] ''hello'' [] ''gemini-2.5-flash'')
        = [''Hi'', ''Hi there'', ''Hi there!'']
      \<and> outcome (streamGemini (Some ''key'')
          (Inr (Stream [Some ''Hi'', Some ''Hi there'', Some ''Hi there!''] None))
          [] ''hello'' [] ''gemini-2.5-flash'')
        = Inr ''Hi there!'')"
  by code_simp

text \<open>
  Claim C1, amended: with the system key present and a stream that ends without failure,
  the text of every chunk that carries a non-empty text is appended to the running total
  and \<^verbatim>\<open>onChunk\<close> is invoked with the new total. The invocation number \<open>k\<close> (from zero)
  receives the concatenation of the first \<open>k + 1\<close> non-empty texts, there is one invocation
  per such chunk, and the call resolves with the concatenation of all of them.
\<close>

theorem streamGemini_appends_chunk_texts:
  assumes "truthy_string API_KEY"
  shows "onChunk_calls (streamGemini API_KEY (Inr (Stream cs None)) hist newMessage newImages modelName)
           = map (\<lambda>k. concat (take (Suc k) (textsOf cs))) [0..<length (textsOf cs)]
         \<and> outcome (streamGemini API_KEY (Inr (Stream cs None)) hist newMessage newImages modelName)
           = Inr (concat (textsOf cs))"
  using streamGemini_stream [OF assms, of cs None hist newMessage newImages modelName]
  by (simp add: consumeChunks_totals)

text \<open>
  For the chunks of the claim this gives three invocations, with \<^verbatim>\<open>Hi\<close>,
  \<^verbatim>\<open>HiHi there\<close> and \<^verbatim>\<open>HiHi thereHi there!\<close>.
\<close>

theorem streamGemini_appends_chunk_texts_witness:
  "truthy_string (Some ''key'')
   \<and> onChunk_calls (streamGemini (Some ''key'')
        (Inr (Stream [Some ''Hi'', Some ''Hi there'', Some ''Hi there!''] None))
        [] ''hello'' [] ''gemini-2.5-flash'')
     = [''Hi'', ''HiHi there'', ''HiHi thereHi there!'']
   \<and> outcome (streamGemini (Some ''key'')
        (Inr (Stream [Some ''Hi'', Some ''Hi there'', Some ''Hi there!''] None))
        [] ''hello'' [] ''gemini-2.5-flash'')
     = Inr ''HiHi thereHi there!''"
proof -
  have key: "truthy_string (Some ''key'')" by simp
  have "map (\<lambda>k. concat (take (Suc k) (textsOf [Some ''Hi'', Some ''Hi there'', Some ''Hi there!''])))
          [0..<length (textsOf [Some ''Hi'', Some ''Hi there'', Some ''Hi there!''])]
        = [''Hi'', ''HiHi there'', ''HiHi thereHi there!'']"
    by code_simp
  moreover have "concat (textsOf [Some ''Hi'', Some ''Hi there'', Some ''Hi there!'']) = ''HiHi thereHi there!''"
    by code_simp
  ultimately show ?thesis
    using key streamGemini_appends_chunk_texts [OF key,
        of "[Some ''Hi'', Some ''Hi there'', Some ''Hi there!'']" "[]" "''hello''" "[]"
           "''gemini-2.5-flash''"]
    by (simp only: simp_thms)
qed

text \<open>
  Claim C4: the adapter creates the chat with the projection of the history without its
  last element. The projection has one entry per prior turn, and the parts of entry \<open>k\<close>
  are the text part of turn \<open>k\<close> followed by one image part per image of that turn, in
  order: \<open>1 + len(images)\<close> parts, a single text part for a turn without images
  (\<open>imagesOf\<close> is empty for an absent and for an empty \<^verbatim>\<open>images\<close> field).
\<close>

theorem prevHistory_parts:
  assumes "truthy_string API_KEY"
  shows "(\<exists>c m. sdk_calls (streamGemini API_KEY sent hist newMessage newImages modelName)
               = [ChatsCreate c, SendMessageStream m] \<and> history c = prevHistory hist)
         \<and> length (prevHistory hist) = length hist - 1
         \<and> (\<forall>k < length hist - 1.
              parts (prevHistory hist ! k)
                = TextPart (msg_text (hist ! k)) # map inlineImage (imagesOf (hist ! k))
              \<and> length (parts (prevHistory hist ! k)) = 1 + length (imagesOf (hist ! k)))"
  using streamGemini_sdk_calls [OF assms, of sent hist newMessage newImages modelName]
  by (simp add: prevHistory_def historyEntry_parts nth_butlast)

theorem prevHistory_parts_witness:
  "truthy_string (Some ''key'')
   \<and> length (prevHistory sampleHistory) = 2
   \<and> (0::nat) < length sampleHistory - 1
   \<and> parts (prevHistory sampleHistory ! 0)
       = [TextPart ''look'', InlineData ''image/jpeg'' ''AAAA'', InlineData ''image/jpeg'' ''BBBB'']
   \<and> (1::nat) < length sampleHistory - 1
   \<and> parts (prevHistory sampleHistory ! 1) = [TextPart ''nice'']"
proof -
  have key: "truthy_string (Some ''key'')" by simp
  have len: "length sampleHistory - 1 = 2" by code_simp
  have k0: "TextPart (msg_text (sampleHistory ! 0)) # map inlineImage (imagesOf (sampleHistory ! 0))
            = [TextPart ''look'', InlineData ''image/jpeg'' ''AAAA'', InlineData ''image/jpeg'' ''BBBB'']"
    by code_simp
  have k1: "TextPart (msg_text (sampleHistory ! 1)) # map inlineImage (imagesOf (sampleHistory ! 1))
            = [TextPart ''nice'']"
    by code_simp
  from prevHistory_parts [OF key, of "Inr (Stream [] None)" sampleHistory "''more''" "[]" "''m''"]
  have "length (prevHistory sampleHistory) = length sampleHistory - 1"
    and all: "\<forall>k < length sampleHistory - 1.
           parts (prevHistory sampleHistory ! k)
             = TextPart (msg_text (sampleHistory ! k)) # map inlineImage (imagesOf (sampleHistory ! k))
           \<and> length (parts (prevHistory sampleHistory ! k)) = 1 + length (imagesOf (sampleHistory ! k))"
    by blast+
  then show ?thesis using key len k0 k1 by simp
qed

text \<open>
  Claim C5 as the specification states it: also when \<^verbatim>\<open>newImages\<close> is empty the new turn
  would be submitted as a list of content parts beginning with the text part. For an empty
  \<^verbatim>\<open>newImages\<close> the code submits the bare string instead
  (\<^verbatim>\<open>parts.length === 1 ? parts[0].text : parts\<close>).
\<close>

theorem newTurn_parts_counterexample:
  "last (sdk_calls (streamGemini (Some ''key'') (Inr (Stream [] None)) [] ''hello'' [] ''m''))
     \<noteq> SendMessageStream (MessageParts (TextPart ''hello'' # map inlineImage []))"
  by code_simp

text \<open>
  Claim C5, amended: with the system key present, the message submitted for the new turn
  is, for a non-empty \<^verbatim>\<open>newImages\<close>, the list of the text part followed by one image part
  per attached image in order, and for an empty \<^verbatim>\<open>newImages\<close> the text itself as a plain
  string.
\<close>

theorem newTurn_message:
  assumes "truthy_string API_KEY"
  shows "last (sdk_calls (streamGemini API_KEY sent hist newMessage newImages modelName))
           = SendMessageStream
               (if newImages = [] then MessageString newMessage
                else MessageParts (TextPart newMessage # map inlineImage newImages))"
proof -
  have "outgoingMessage (newParts newMessage newImages)
          = (if newImages = [] then MessageString newMessage
             else MessageParts (TextPart newMessage # map inlineImage newImages))"
    by (cases newImages) (simp_all add: newParts_def)
  then show ?thesis
    using streamGemini_sdk_calls [OF assms, of sent hist newMessage newImages modelName] by simp
qed

theorem newTurn_message_witness:
  "truthy_string (Some ''key'')
   \<and> last (sdk_calls (streamGemini (Some ''key'') (Inr (Stream [] None)) [] ''look'' [''AAAA''] ''m''))
       = SendMessageStream (MessageParts [TextPart ''look'', InlineData ''image/jpeg'' ''AAAA''])
   \<and> last (sdk_calls (streamGemini (Some ''key'') (Inr (Stream [] None)) [] ''hello'' [] ''m''))
       = SendMessageStream (MessageString ''hello'')"
proof -
  have key: "truthy_string (Some ''key'')" by simp
  show ?thesis
    using key
      newTurn_message [OF key, of "Inr (Stream [] None)" "[]" "''look''" "[''AAAA'']" "''m''"]
      newTurn_message [OF key, of "Inr (Stream [] None)" "[]" "''hello''" "[]" "''m''"]
    by (simp add: inlineImage_def)
qed

section \<open>Properties of the OpenAI-compatible adapter\<close>

subsection \<open>Splitting at line feeds\<close>

lemma split_newline_nonempty: "split_newline s \<noteq> []"
  by (induction s) (auto split: list.splits)

lemma split_newline_Cons:
  "split_newline (c # cs) =
     (if c = CHR 0x0A then [] # split_newline cs
      else (c # hd (split_newline cs)) # tl (split_newline cs))"
  using split_newline_nonempty [of cs] by (cases "split_newline cs") auto

lemma split_newline_append:
  "split_newline (a @ b) =
     butlast (split_newline a) @ split_newline (last (split_newline a) @ b)"
proof (induction a)
  case Nil
  show ?case by simp
next
  case (Cons c a)
  note ne = split_newline_nonempty [of a]
  show ?case
  proof (cases "c = CHR 0x0A")
    case True
    then show ?thesis using Cons.IH ne by simp
  next
    case False
    show ?thesis
    proof (cases "butlast (split_newline a) = []")
      case True
      then obtain l where l: "split_newline a = [l]"
        using ne by (cases "split_newline a") (auto split: if_splits)
      have "split_newline ((c # a) @ b) = (c # hd (split_newline (l @ b))) # tl (split_newline (l @ b))"
        using False Cons.IH l by (simp add: split_newline_Cons del: split_newline.simps)
      also have "\<dots> = split_newline ((c # l) @ b)"
        using False by (simp add: split_newline_Cons del: split_newline.simps)
      finally show ?thesis using False l by (simp add: split_newline_Cons del: split_newline.simps)
    next
      case nonempty: False
      then obtain l ls where l: "split_newline a = l # ls" "ls \<noteq> []"
        by (cases "split_newline a") (auto split: if_splits)
      then show ?thesis
        using False Cons.IH by (simp add: split_newline_Cons del: split_newline.simps)
    qed
  qed
qed

lemma split_newline_no_newline:
  "CHR 0x0A \<notin> set s \<Longrightarrow> split_newline s = [s]"
  by (induction s) auto

lemma last_split_newline_no_newline:
  "CHR 0x0A \<notin> set (last (split_newline s))"
proof (induction s)
  case Nil
  show ?case by simp
next
  case (Cons c s)
  show ?case
    using Cons.IH split_newline_nonempty [of s]
    by (cases "split_newline s"; cases "tl (split_newline s) = []")
       (auto simp: split_newline_Cons simp del: split_newline.simps split: if_splits)
qed

lemma split_newline_line:
  "CHR 0x0A \<notin> set l \<Longrightarrow> split_newline (l @ CHR 0x0A # rest) = l # split_newline rest"
  by (induction l) auto

lemma split_newline_terminated:
  assumes "\<forall>l \<in> set ls. CHR 0x0A \<notin> set l"
  shows "split_newline (terminated ls @ rest) = ls @ split_newline rest"
  using assms by (induction ls) (simp_all add: terminated_def split_newline_line)

lemma completeLines_terminated:
  assumes "\<forall>l \<in> set ls. CHR 0x0A \<notin> set l"
  shows "completeLines (terminated ls) = ls"
  using split_newline_terminated [OF assms, of "[]"] by (simp add: completeLines_def)

lemma completeLines_append_fragment:
  assumes "CHR 0x0A \<notin> set fragment"
  shows "completeLines (t @ fragment) = completeLines t"
proof -
  have "CHR 0x0A \<notin> set (last (split_newline t) @ fragment)"
    using assms last_split_newline_no_newline [of t] by simp
  then have "split_newline (last (split_newline t) @ fragment) = [last (split_newline t) @ fragment]"
    by (rule split_newline_no_newline)
  then show ?thesis
    using split_newline_append [of t fragment] by (simp add: completeLines_def)
qed

subsection \<open>The read loop\<close>

text \<open>
  The loop never changes the buffer while it handles a line, so the state after any reads is
  the state after the complete lines of the text read so far, with the unterminated rest in
  the buffer.
\<close>

lemma processLine_buffer [simp]: "buffer (processLine p st l) = buffer st"
  by (simp add: processLine_def Let_def split: option.splits sum.splits)

lemma processLine_buffer_update:
  "processLine p (st\<lparr> buffer := b \<rparr>) l = (processLine p st l)\<lparr> buffer := b \<rparr>"
  by (simp add: processLine_def Let_def split: option.splits sum.splits)

lemma foldl_processLine_buffer_update:
  "foldl (processLine p) (st\<lparr> buffer := b \<rparr>) ls = (foldl (processLine p) st ls)\<lparr> buffer := b \<rparr>"
  by (induction ls arbitrary: st) (simp_all add: processLine_buffer_update)

lemma onValue_lines:
  "onValue p st chunk =
     (foldl (processLine p) st (completeLines (buffer st @ chunk)))
       \<lparr> buffer := unterminated (buffer st @ chunk) \<rparr>"
  using split_newline_nonempty [of "buffer st @ chunk"]
  by (simp add: onValue_def pop_def completeLines_def unterminated_def
      foldl_processLine_buffer_update)

lemma readLoop_lines:
  assumes "CHR 0x0A \<notin> set (buffer st)"
  shows "readLoop p st chunks =
           (foldl (processLine p) st (completeLines (buffer st @ concat chunks)))
             \<lparr> buffer := unterminated (buffer st @ concat chunks) \<rparr>"
  using assms
proof (induction chunks arbitrary: st)
  case Nil
  then show ?case
    by (simp add: completeLines_def unterminated_def split_newline_no_newline)
next
  case (Cons c cs)
  let ?st1 = "onValue p st c"
  have b1: "buffer ?st1 = unterminated (buffer st @ c)"
    by (simp add: onValue_lines)
  have nl: "CHR 0x0A \<notin> set (buffer ?st1)"
    unfolding b1 unterminated_def by (rule last_split_newline_no_newline)
  have split: "split_newline (buffer st @ concat (c # cs)) =
                 completeLines (buffer st @ c) @ split_newline (buffer ?st1 @ concat cs)"
    using split_newline_append [of "buffer st @ c" "concat cs"]
    by (simp add: b1 completeLines_def unterminated_def)
  have cl: "completeLines (buffer st @ concat (c # cs)) =
              completeLines (buffer st @ c) @ completeLines (buffer ?st1 @ concat cs)"
    unfolding completeLines_def [of "buffer st @ concat (c # cs)"] split
    using split_newline_nonempty [of "buffer ?st1 @ concat cs"]
    by (simp add: completeLines_def butlast_append)
  have un: "unterminated (buffer st @ concat (c # cs)) = unterminated (buffer ?st1 @ concat cs)"
    unfolding unterminated_def [of "buffer st @ concat (c # cs)"] split
    using split_newline_nonempty [of "buffer ?st1 @ concat cs"]
    by (simp add: unterminated_def)
  have "readLoop p st (c # cs) = readLoop p ?st1 cs" by simp
  also have "\<dots> = (foldl (processLine p) ?st1 (completeLines (buffer ?st1 @ concat cs)))
             \<lparr> buffer := unterminated (buffer ?st1 @ concat cs) \<rparr>"
    using Cons.IH [OF nl] .
  also have "\<dots> = (foldl (processLine p) st (completeLines (buffer st @ concat (c # cs))))
             \<lparr> buffer := unterminated (buffer st @ concat (c # cs)) \<rparr>"
    unfolding cl un by (simp add: onValue_lines foldl_processLine_buffer_update)
  finally show ?case .
qed

lemma readLoop_initial:
  "readLoop p initial chunks =
     (foldl (processLine p) initial (completeLines (concat chunks)))
       \<lparr> buffer := unterminated (concat chunks) \<rparr>"
  using readLoop_lines [of initial p chunks] by (simp add: initial_def)

lemma readLoop_accumulated:
  "fullText (readLoop p initial chunks)
     = fullText (foldl (processLine p) initial (completeLines (concat chunks)))"
  "reported (readLoop p initial chunks)
     = reported (foldl (processLine p) initial (completeLines (concat chunks)))"
  "parsed (readLoop p initial chunks)
     = parsed (foldl (processLine p) initial (completeLines (concat chunks)))"
  by (simp_all add: readLoop_initial)

lemma processLine_parsed:
  "parsed (processLine p st l) = parsed st @ (if isDataLine l then [payloadOf l] else [])"
  by (simp add: processLine_def isDataLine_def payloadOf_def Let_def
      split: option.splits sum.splits)

lemma foldl_processLine_parsed:
  "parsed (foldl (processLine p) st ls) = parsed st @ map payloadOf (filter isDataLine ls)"
  by (induction ls arbitrary: st) (simp_all add: processLine_parsed)

lemma processLine_other:
  "\<not> isDataLine l \<Longrightarrow> processLine p st l = st"
  by (auto simp: processLine_def isDataLine_def Let_def)

lemma processLine_malformed:
  assumes "JSON_parse p (payloadOf l) = None"
  shows "fullText (processLine p st l) = fullText st"
    and "reported (processLine p st l) = reported st"
  using assms by (simp_all add: processLine_def payloadOf_def Let_def)

lemma processLine_content:
  assumes "isDataLine l" and "JSON_parse p (payloadOf l) = Some json"
    and "deltaContent p json = Inr c" and "truthy p c"
  shows "processLine p st l =
           st\<lparr> parsed := parsed st @ [payloadOf l],
               fullText := fullText st @ toString p c,
               reported := reported st @ [fullText st @ toString p c] \<rparr>"
  using assms by (simp add: processLine_def isDataLine_def payloadOf_def Let_def)

lemma foldl_processLine_skip:
  assumes "JSON_parse p (payloadOf bad) = None"
  shows "fullText (foldl (processLine p) st (before @ bad # after))
           = fullText (foldl (processLine p) st (before @ after))"
    and "reported (foldl (processLine p) st (before @ bad # after))
           = reported (foldl (processLine p) st (before @ after))"
proof -
  have step: "fullText (processLine p s l) = fullText (processLine p s' l)
              \<and> reported (processLine p s l) = reported (processLine p s' l)"
    if "fullText s = fullText s'" "reported s = reported s'" for s s' l
    using that by (simp add: processLine_def Let_def split: option.splits sum.splits)
  have run: "fullText (foldl (processLine p) s ls) = fullText (foldl (processLine p) s' ls)
             \<and> reported (foldl (processLine p) s ls) = reported (foldl (processLine p) s' ls)"
    if "fullText s = fullText s'" "reported s = reported s'" for s s' ls
    using that
  proof (induction ls arbitrary: s s')
    case Nil
    then show ?case by simp
  next
    case (Cons l ls)
    show ?case
      using Cons.IH [of "processLine p s l" "processLine p s' l"] step [OF Cons.prems]
      by simp
  qed
  let ?s = "foldl (processLine p) st before"
  have "fullText (processLine p ?s bad) = fullText ?s" "reported (processLine p ?s bad) = reported ?s"
    using processLine_malformed [OF assms] by simp_all
  from run [OF this, of after]
  show "fullText (foldl (processLine p) st (before @ bad # after))
           = fullText (foldl (processLine p) st (before @ after))"
    and "reported (foldl (processLine p) st (before @ bad # after))
           = reported (foldl (processLine p) st (before @ after))"
    by simp_all
qed

subsection \<open>Decimal rendering\<close>

lemma decimalValue_snoc:
  "decimalValue (ds @ [c]) = 10 * decimalValue ds + (of_char c - 48)"
  by (simp add: decimalValue_def)

lemma digit_char: "d < 10 \<Longrightarrow> (of_char (char_of (48 + d :: nat)) :: nat) = 48 + d"
  by (simp add: of_char_of)

lemma showNat_decimal: "decimalValue (showNat n) = n"
proof (induction n rule: showNat.induct)
  case (1 n)
  show ?case
  proof (cases "n < 10")
    case True
    then show ?thesis
      by (subst showNat.simps) (simp add: decimalValue_def digit_char)
  next
    case False
    have "decimalValue (showNat n) = 10 * decimalValue (showNat (n div 10)) + n mod 10"
      using False by (subst showNat.simps) (simp add: decimalValue_snoc digit_char)
    then show ?thesis using 1 False by simp
  qed
qed

lemma showNat_digits: "c \<in> set (showNat n) \<Longrightarrow> 48 \<le> (of_char c :: nat) \<and> (of_char c :: nat) \<le> 57"
proof (induction n rule: showNat.induct)
  case (1 n)
  show ?case
  proof (cases "n < 10")
    case True
    then show ?thesis using 1(2)
      by (subst (asm) showNat.simps) (auto simp: digit_char)
  next
    case False
    have "n mod 10 < 10" by simp
    then have d: "(of_char (char_of (48 + n mod 10)) :: nat) = 48 + n mod 10"
      by (rule digit_char)
    from 1(2) False have "c \<in> set (showNat (n div 10)) \<or> c = char_of (48 + n mod 10)"
      by (subst (asm) showNat.simps) auto
    then show ?thesis
      using 1(1) [OF False] d by auto
  qed
qed

subsection \<open>Runs of the adapter\<close>

text \<open>
  The texts a streaming decoder returns for the reads concatenate to the text of all the
  bytes read.
\<close>

lemma concat_decodeReads:
  assumes "streamingDecoder decode"
  shows "concat (decodeReads decode d vs) = decodedText decode d vs"
proof (induction vs arbitrary: d)
  case Nil
  show ?case using assms by (simp add: streamingDecoder_def decodedText_def)
next
  case (Cons v vs)
  obtain t d' where v: "decode d v = (t, d')" by (cases "decode d v")
  have "decode d (v @ concat vs) = (t @ fst (decode d' (concat vs)), snd (decode d' (concat vs)))"
    using assms v by (simp add: streamingDecoder_def case_prod_beta)
  then show ?case
    using Cons.IH [of d'] v by (simp add: decodedText_def)
qed

lemma streamingDecoder_ascii: "streamingDecoder asciiDecoder"
  by (simp add: streamingDecoder_def asciiDecoder_def)

lemma asciiDecoder_bytesOf: "asciiDecoder d (bytesOf s) = (s, d)"
proof -
  have "char_of (unat (of_nat (of_char c) :: 8 word)) = c" for c :: char
  proof -
    have "(of_char c :: nat) < 256" by (rule nat_of_char_less_256)
    hence "unat (of_nat (of_char c) :: 8 word) = of_char c"
      by (simp add: unat_of_nat)
    then show ?thesis by simp
  qed
  then show ?thesis by (simp add: asciiDecoder_def bytesOf_def comp_def)
qed

lemma decodeReads_ascii: "decodeReads asciiDecoder d (map bytesOf ts) = ts"
  by (induction ts) (simp_all add: asciiDecoder_bytesOf)

lemma decodedText_ascii: "decodedText asciiDecoder d (map bytesOf ts) = concat ts"
  using concat_decodeReads [OF streamingDecoder_ascii, of d "map bytesOf ts"]
  by (simp add: decodeReads_ascii)

lemma concat_bytesOf: "concat (map bytesOf ts) = bytesOf (concat ts)"
  by (induction ts) (simp_all add: bytesOf_def)

lemma streamOpenAI_streaming:
  assumes "truthy_string (apiKey provider)" and "truthy_string (baseUrl provider)"
    and "ok r" and "response_body r = Some (Stream chunks f)"
  shows "streamOpenAI p (Inr r) hist newMessage provider =
           \<lparr> outcome = (case f of Some e \<Rightarrow> Inl e
                         | None \<Rightarrow> Inr (fullText (readLoop p initial chunks))),
             onChunk_calls = reported (readLoop p initial chunks),
             sdk_calls = [],
             fetch_calls = [chatRequest hist newMessage provider],
             parse_calls = parsed (readLoop p initial chunks) \<rparr>"
  using assms by (simp add: streamOpenAI_def Let_def)

lemma streamOpenAI_lines:
  assumes "truthy_string (apiKey provider)" and "truthy_string (baseUrl provider)"
    and "ok r" and "response_body r = Some (Stream chunks f)"
  shows "streamOpenAI p (Inr r) hist newMessage provider =
           \<lparr> outcome = (case f of Some e \<Rightarrow> Inl e
                         | None \<Rightarrow> Inr (fullText (foldl (processLine p) initial
                                                   (completeLines (concat chunks))))),
             onChunk_calls = reported (foldl (processLine p) initial (completeLines (concat chunks))),
             sdk_calls = [],
             fetch_calls = [chatRequest hist newMessage provider],
             parse_calls = parsed (foldl (processLine p) initial (completeLines (concat chunks))) \<rparr>"
  unfolding streamOpenAI_streaming [OF assms]
  by (cases f) (simp_all add: readLoop_accumulated)

lemma streamOpenAI_fetch_calls:
  assumes "truthy_string (apiKey provider)" and "truthy_string (baseUrl provider)"
  shows "fetch_calls (streamOpenAI p fetched hist newMessage provider)
           = [chatRequest hist newMessage provider]"
  using assms
  by (simp add: streamOpenAI_def failed_def Let_def split: sum.splits option.splits)

lemma deltaContent_deltaObject:
  "deltaContent p (deltaObject c) = Inr (JString c)"
  by (simp add: deltaContent_def deltaObject_def optional_def)

lemma hiLine:
  \<open>isDataLine ''data: {"choices":[{"delta":{"content":"Hi"}}]}''\<close>
  \<open>payloadOf ''data: {"choices":[{"delta":{"content":"Hi"}}]}''
     = ''{"choices":[{"delta":{"content":"Hi"}}]}''\<close>
  by code_simp+

lemma thereLine:
  \<open>isDataLine ''data: {"choices":[{"delta":{"content":" there"}}]}''\<close>
  \<open>payloadOf ''data: {"choices":[{"delta":{"content":" there"}}]}''
     = ''{"choices":[{"delta":{"content":" there"}}]}''\<close>
  by code_simp+

lemma doneLine: \<open>\<not> isDataLine ''data: [DONE]''\<close>
  by code_simp

lemma sample_lines_no_newline:
  \<open>\<forall>l \<in> set [''data: {"choices":[{"delta":{"content":"Hi"}}]}'',
                ''data: {"choices":[{"delta":{"content":" there"}}]}'',
                ''data: [DONE]'']. CHR 0x0A \<notin> set l\<close>
  by code_simp

text \<open>
  Claim C2: for a successful response whose body, however it is cut into reads, consists
  of the three lines
  \<^verbatim>\<open>data: {"choices":[{"delta":{"content":"Hi"}}]}\<close>,
  \<^verbatim>\<open>data: {"choices":[{"delta":{"content":" there"}}]}\<close> and \<^verbatim>\<open>data: [DONE]\<close>, and a
  \<^verbatim>\<open>JSON.parse\<close> that reads the two JSON texts as the objects they denote, \<^verbatim>\<open>onChunk\<close> is
  invoked exactly twice, with \<^verbatim>\<open>Hi\<close> and then \<^verbatim>\<open>Hi there\<close>, the call resolves with
  \<^verbatim>\<open>Hi there\<close>, and \<^verbatim>\<open>JSON.parse\<close> is called on the two JSON texts only: the sentinel is
  skipped.
\<close>

theorem streamOpenAI_appends_deltas:
  assumes \<open>truthy_string (apiKey provider)\<close> and \<open>truthy_string (baseUrl provider)\<close>
    and \<open>ok r\<close> and \<open>response_body r = Some (Stream chunks None)\<close>
    and \<open>concat chunks = terminated
           [''data: {"choices":[{"delta":{"content":"Hi"}}]}'',
            ''data: {"choices":[{"delta":{"content":" there"}}]}'',
            ''data: [DONE]'']\<close>
    and \<open>JSON_parse p ''{"choices":[{"delta":{"content":"Hi"}}]}'' = Some (deltaObject ''Hi'')\<close>
    and \<open>JSON_parse p ''{"choices":[{"delta":{"content":" there"}}]}''
           = Some (deltaObject '' there'')\<close>
  shows \<open>onChunk_calls (streamOpenAI p (Inr r) hist newMessage provider) = [''Hi'', ''Hi there'']
         \<and> outcome (streamOpenAI p (Inr r) hist newMessage provider) = Inr ''Hi there''
         \<and> parse_calls (streamOpenAI p (Inr r) hist newMessage provider)
           = [''{"choices":[{"delta":{"content":"Hi"}}]}'',
              ''{"choices":[{"delta":{"content":" there"}}]}'']\<close>
proof -
  have lines: \<open>completeLines (concat chunks) =
      [''data: {"choices":[{"delta":{"content":"Hi"}}]}'',
       ''data: {"choices":[{"delta":{"content":" there"}}]}'',
       ''data: [DONE]'']\<close>
    unfolding assms(5) using sample_lines_no_newline by (rule completeLines_terminated)
  have s1: \<open>processLine p st ''data: {"choices":[{"delta":{"content":"Hi"}}]}'' =
      st\<lparr> parsed := parsed st @ [''{"choices":[{"delta":{"content":"Hi"}}]}''],
          fullText := fullText st @ ''Hi'',
          reported := reported st @ [fullText st @ ''Hi''] \<rparr>\<close> for st
    using processLine_content [OF hiLine(1), of p "deltaObject ''Hi''" "JString ''Hi''" st]
      assms(6)
    by (simp add: hiLine(2) deltaContent_deltaObject)
  have s2: \<open>processLine p st ''data: {"choices":[{"delta":{"content":" there"}}]}'' =
      st\<lparr> parsed := parsed st @ [''{"choices":[{"delta":{"content":" there"}}]}''],
          fullText := fullText st @ '' there'',
          reported := reported st @ [fullText st @ '' there''] \<rparr>\<close> for st
    using processLine_content [OF thereLine(1), of p "deltaObject '' there''" "JString '' there''" st]
      assms(7)
    by (simp add: thereLine(2) deltaContent_deltaObject)
  have s3: \<open>processLine p st ''data: [DONE]'' = st\<close> for st
    using doneLine by (rule processLine_other)
  have final: \<open>foldl (processLine p) initial (completeLines (concat chunks)) =
      \<lparr> fullText = ''Hi there'', buffer = [], reported = [''Hi'', ''Hi there''],
        parsed = [''{"choices":[{"delta":{"content":"Hi"}}]}'',
                  ''{"choices":[{"delta":{"content":" there"}}]}''] \<rparr>\<close>
    unfolding lines by (simp only: foldl.simps s1 s2 s3) (simp add: initial_def)
  show ?thesis
    unfolding streamOpenAI_streaming [OF assms(1,2,3,4)] readLoop_accumulated final
    by simp
qed

theorem streamOpenAI_appends_deltas_witness:
  \<open>truthy_string (apiKey sampleProvider) \<and> truthy_string (baseUrl sampleProvider)
   \<and> ok (streamingResponse sampleReads)
   \<and> response_body (streamingResponse sampleReads) = Some (Stream sampleReads None)
   \<and> concat sampleReads = terminated
         [''data: {"choices":[{"delta":{"content":"Hi"}}]}'',
          ''data: {"choices":[{"delta":{"content":" there"}}]}'',
          ''data: [DONE]'']
   \<and> JSON_parse lexemePlatform ''{"choices":[{"delta":{"content":"Hi"}}]}''
       = Some (deltaObject ''Hi'')
   \<and> JSON_parse lexemePlatform ''{"choices":[{"delta":{"content":" there"}}]}''
       = Some (deltaObject '' there'')
   \<and> onChunk_calls (streamOpenAI lexemePlatform (Inr (streamingResponse sampleReads))
        [] ''Hello'' sampleProvider) = [''Hi'', ''Hi there'']
   \<and> outcome (streamOpenAI lexemePlatform (Inr (streamingResponse sampleReads))
        [] ''Hello'' sampleProvider) = Inr ''Hi there''\<close>
proof -
  have h1: \<open>truthy_string (apiKey sampleProvider)\<close> by code_simp
  have h2: \<open>truthy_string (baseUrl sampleProvider)\<close> by code_simp
  have h3: \<open>ok (streamingResponse sampleReads)\<close> by code_simp
  have h4: \<open>response_body (streamingResponse sampleReads) = Some (Stream sampleReads None)\<close>
    by (simp add: streamingResponse_def)
  have h5: \<open>concat sampleReads = terminated
         [''data: {"choices":[{"delta":{"content":"Hi"}}]}'',
          ''data: {"choices":[{"delta":{"content":" there"}}]}'',
          ''data: [DONE]'']\<close> by code_simp
  have h6: \<open>JSON_parse lexemePlatform ''{"choices":[{"delta":{"content":"Hi"}}]}''
       = Some (deltaObject ''Hi'')\<close> by code_simp
  have h7: \<open>JSON_parse lexemePlatform ''{"choices":[{"delta":{"content":" there"}}]}''
       = Some (deltaObject '' there'')\<close> by code_simp
  from streamOpenAI_appends_deltas [OF h1 h2 h3 h4 h5 h6 h7, of "[]" "''Hello''"]
  show ?thesis using h1 h2 h3 h4 h5 h6 h7 by blast
qed

text \<open>
  Claim C3: for a streaming decoder and successful responses, after any reads
  \<^verbatim>\<open>JSON.parse\<close> has been called exactly on the payloads of the data lines that a line
  feed has terminated in the text decoded so far, and the rest of that text is held in the
  buffer; so a line that a read boundary splits is not parsed before a later read completes
  it. Two responses whose reads concatenate to the same bytes give the same run (resolved
  value, \<^verbatim>\<open>onChunk\<close> invocations, request and parse attempts), and text after the last
  line feed changes nothing: it is discarded when the stream ends.
\<close>

theorem partial_line_buffering:
  assumes "truthy_string (apiKey provider)" and "truthy_string (baseUrl provider)"
    and "streamingDecoder decode"
    and "ok r" and "response_body r = Some (Stream (decodeReads decode d reads) f)"
    and "ok r'" and "response_body r' = Some (Stream (decodeReads decode d reads') f)"
  shows "parsed (readLoop p initial (decodeReads decode d reads))
           = map payloadOf (filter isDataLine (completeLines (decodedText decode d reads)))
         \<and> buffer (readLoop p initial (decodeReads decode d reads))
           = unterminated (decodedText decode d reads)
         \<and> (concat reads' = concat reads \<longrightarrow>
              streamOpenAI p (Inr r') hist newMessage provider
              = streamOpenAI p (Inr r) hist newMessage provider)
         \<and> (decodedText decode d reads' = decodedText decode d reads @ fragment
              \<and> CHR 0x0A \<notin> set fragment \<longrightarrow>
              streamOpenAI p (Inr r') hist newMessage provider
              = streamOpenAI p (Inr r) hist newMessage provider)"
proof (intro conjI impI)
  note decoded = concat_decodeReads [OF assms(3), of d]
  show "parsed (readLoop p initial (decodeReads decode d reads))
          = map payloadOf (filter isDataLine (completeLines (decodedText decode d reads)))"
    by (simp add: readLoop_accumulated(3) foldl_processLine_parsed decoded) (simp add: initial_def)
  show "buffer (readLoop p initial (decodeReads decode d reads))
          = unterminated (decodedText decode d reads)"
    by (simp add: readLoop_initial decoded)
  note run = streamOpenAI_lines [OF assms(1,2,4,5), of p hist newMessage, unfolded decoded]
  note run' = streamOpenAI_lines [OF assms(1,2,6,7), of p hist newMessage, unfolded decoded]
  show "streamOpenAI p (Inr r') hist newMessage provider
        = streamOpenAI p (Inr r) hist newMessage provider"
    if "concat reads' = concat reads"
    using that by (simp only: run run' decodedText_def)
  show "streamOpenAI p (Inr r') hist newMessage provider
        = streamOpenAI p (Inr r) hist newMessage provider"
    if "decodedText decode d reads' = decodedText decode d reads @ fragment
        \<and> CHR 0x0A \<notin> set fragment"
  proof -
    have "completeLines (decodedText decode d reads') = completeLines (decodedText decode d reads)"
      using that by (simp add: completeLines_append_fragment)
    then show ?thesis by (simp only: run run')
  qed
qed

theorem partial_line_buffering_witness:
  \<open>truthy_string (apiKey sampleProvider) \<and> truthy_string (baseUrl sampleProvider)
   \<and> streamingDecoder asciiDecoder
   \<and> ok (streamingResponse sampleReads)
   \<and> response_body (streamingResponse sampleReads)
       = Some (Stream (decodeReads asciiDecoder () (map bytesOf sampleReads)) None)
   \<and> ok (streamingResponse [sampleBody])
   \<and> response_body (streamingResponse [sampleBody])
       = Some (Stream (decodeReads asciiDecoder () (map bytesOf [sampleBody])) None)
   \<and> ok (streamingResponse [sampleBody, lostLine])
   \<and> response_body (streamingResponse [sampleBody, lostLine])
       = Some (Stream (decodeReads asciiDecoder () (map bytesOf [sampleBody, lostLine])) None)
   \<and> parsed (readLoop lexemePlatform initial
        (decodeReads asciiDecoder () (map bytesOf [''data: {"choices":[{"del'']))) = []
   \<and> buffer (readLoop lexemePlatform initial
        (decodeReads asciiDecoder () (map bytesOf [''data: {"choices":[{"del''])))
       = ''data: {"choices":[{"del''
   \<and> parsed (readLoop lexemePlatform initial
        (decodeReads asciiDecoder () (map bytesOf (take 2 sampleReads))))
       = [''{"choices":[{"delta":{"content":"Hi"}}]}'',
          ''{"choices":[{"delta":{"content":" there"}}]}'']
   \<and> concat (map bytesOf sampleReads) = concat (map bytesOf [sampleBody])
   \<and> streamOpenAI lexemePlatform (Inr (streamingResponse sampleReads)) [] ''Hello'' sampleProvider
       = streamOpenAI lexemePlatform (Inr (streamingResponse [sampleBody])) [] ''Hello'' sampleProvider
   \<and> decodedText asciiDecoder () (map bytesOf [sampleBody, lostLine])
       = decodedText asciiDecoder () (map bytesOf [sampleBody]) @ lostLine
   \<and> CHR 0x0A \<notin> set lostLine
   \<and> streamOpenAI lexemePlatform (Inr (streamingResponse [sampleBody, lostLine])) [] ''Hello''
         sampleProvider
       = streamOpenAI lexemePlatform (Inr (streamingResponse [sampleBody])) [] ''Hello'' sampleProvider
   \<and> outcome (streamOpenAI lexemePlatform (Inr (streamingResponse [sampleBody, lostLine])) []
         ''Hello'' sampleProvider) = Inr ''Hi there''\<close>
proof -
  have h1: \<open>truthy_string (apiKey sampleProvider)\<close> by code_simp
  have h2: \<open>truthy_string (baseUrl sampleProvider)\<close> by code_simp
  note h3 = streamingDecoder_ascii
  have ok: \<open>ok (streamingResponse ts)\<close> for ts by (simp add: ok_def streamingResponse_def)
  have body: \<open>response_body (streamingResponse ts)
      = Some (Stream (decodeReads asciiDecoder () (map bytesOf ts)) None)\<close> for ts
    by (simp add: streamingResponse_def decodeReads_ascii)
  have e1: \<open>map payloadOf (filter isDataLine (completeLines (concat [''data: {"choices":[{"del''])))
            = []\<close> by code_simp
  have e2: \<open>unterminated (concat [''data: {"choices":[{"del'']) = ''data: {"choices":[{"del''\<close>
    by code_simp
  have e3: \<open>map payloadOf (filter isDataLine (completeLines (concat (take 2 sampleReads))))
            = [''{"choices":[{"delta":{"content":"Hi"}}]}'',
               ''{"choices":[{"delta":{"content":" there"}}]}'']\<close> by code_simp
  have e4: \<open>outcome (streamOpenAI lexemePlatform (Inr (streamingResponse [sampleBody])) []
         ''Hello'' sampleProvider) = Inr ''Hi there''\<close> by code_simp
  have \<open>concat sampleReads = concat [sampleBody]\<close> by code_simp
  then have c1: \<open>concat (map bytesOf sampleReads) = concat (map bytesOf [sampleBody])\<close>
    by (simp only: concat_bytesOf)
  have c2: \<open>decodedText asciiDecoder () (map bytesOf [sampleBody, lostLine])
       = decodedText asciiDecoder () (map bytesOf [sampleBody]) @ lostLine\<close>
    unfolding decodedText_ascii by simp
  have c3: \<open>CHR 0x0A \<notin> set lostLine\<close> by code_simp
  note t1 = partial_line_buffering [where p = lexemePlatform and decode = asciiDecoder
      and d = \<open>()\<close> and reads = \<open>map bytesOf [''data: {"choices":[{"del'']\<close>
      and reads' = \<open>map bytesOf []\<close>, OF h1 h2 h3 ok body ok body]
  note t2 = partial_line_buffering [where p = lexemePlatform and decode = asciiDecoder
      and d = \<open>()\<close> and reads = \<open>map bytesOf (take 2 sampleReads)\<close>
      and reads' = \<open>map bytesOf []\<close>, OF h1 h2 h3 ok body ok body]
  note t3 = partial_line_buffering [where p = lexemePlatform and decode = asciiDecoder
      and d = \<open>()\<close> and reads = \<open>map bytesOf [sampleBody]\<close>
      and reads' = \<open>map bytesOf sampleReads\<close>
      and hist = \<open>[]\<close> and newMessage = \<open>''Hello''\<close>, OF h1 h2 h3 ok body ok body]
  note t4 = partial_line_buffering [where p = lexemePlatform and decode = asciiDecoder
      and d = \<open>()\<close> and reads = \<open>map bytesOf [sampleBody]\<close>
      and reads' = \<open>map bytesOf [sampleBody, lostLine]\<close>
      and hist = \<open>[]\<close> and newMessage = \<open>''Hello''\<close> and fragment = lostLine,
      OF h1 h2 h3 ok body ok body]
  have r1: \<open>parsed (readLoop lexemePlatform initial
        (decodeReads asciiDecoder () (map bytesOf [''data: {"choices":[{"del'']))) = []\<close>
    using t1 e1 by (simp only: decodedText_ascii)
  have r2: \<open>buffer (readLoop lexemePlatform initial
        (decodeReads asciiDecoder () (map bytesOf [''data: {"choices":[{"del''])))
       = ''data: {"choices":[{"del''\<close>
    using t1 e2 by (simp only: decodedText_ascii)
  have r3: \<open>parsed (readLoop lexemePlatform initial
        (decodeReads asciiDecoder () (map bytesOf (take 2 sampleReads))))
       = [''{"choices":[{"delta":{"content":"Hi"}}]}'',
          ''{"choices":[{"delta":{"content":" there"}}]}'']\<close>
    using t2 e3 by (simp only: decodedText_ascii)
  have r4: \<open>streamOpenAI lexemePlatform (Inr (streamingResponse sampleReads)) [] ''Hello'' sampleProvider
       = streamOpenAI lexemePlatform (Inr (streamingResponse [sampleBody])) [] ''Hello'' sampleProvider\<close>
    using t3 c1 by blast
  have r5: \<open>streamOpenAI lexemePlatform (Inr (streamingResponse [sampleBody, lostLine])) [] ''Hello''
         sampleProvider
       = streamOpenAI lexemePlatform (Inr (streamingResponse [sampleBody])) [] ''Hello'' sampleProvider\<close>
    using t4 c2 c3 by blast
  have r6: \<open>outcome (streamOpenAI lexemePlatform (Inr (streamingResponse [sampleBody, lostLine])) []
         ''Hello'' sampleProvider) = Inr ''Hi there''\<close>
    using r5 e4 by simp
  show ?thesis
    using h1 h2 h3 ok body r1 r2 r3 r4 r5 r6 c1 c2 c3 by blast
qed

text \<open>
  Claim C6: when the provider's \<^verbatim>\<open>apiKey\<close> or \<^verbatim>\<open>baseUrl\<close> is absent or empty, the call
  fails with an error, no \<^verbatim>\<open>fetch\<close> call is made and \<^verbatim>\<open>onChunk\<close> is never invoked.
\<close>

theorem missing_configuration_fails_first:
  assumes "\<not> truthy_string (apiKey provider) \<or> \<not> truthy_string (baseUrl provider)"
  shows "outcome (streamOpenAI p fetched hist newMessage provider)
           = Inl (Error ''API Key or Base URL missing for custom provider.'')
         \<and> fetch_calls (streamOpenAI p fetched hist newMessage provider) = []
         \<and> onChunk_calls (streamOpenAI p fetched hist newMessage provider) = []"
  using assms by (auto simp: streamOpenAI_def failed_def)

theorem missing_configuration_fails_first_witness:
  "\<not> truthy_string (apiKey noKeyProvider)
   \<and> outcome (streamOpenAI lexemePlatform (Inr (streamingResponse [sampleBody])) [] ''Hello''
        noKeyProvider)
       = Inl (Error ''API Key or Base URL missing for custom provider.'')
   \<and> fetch_calls (streamOpenAI lexemePlatform (Inr (streamingResponse [sampleBody])) [] ''Hello''
        noKeyProvider) = []
   \<and> onChunk_calls (streamOpenAI lexemePlatform (Inr (streamingResponse [sampleBody])) [] ''Hello''
        noKeyProvider) = []
   \<and> \<not> truthy_string (baseUrl emptyUrlProvider)
   \<and> outcome (streamOpenAI lexemePlatform (Inr (streamingResponse [sampleBody])) [] ''Hello''
        emptyUrlProvider)
       = Inl (Error ''API Key or Base URL missing for custom provider.'')
   \<and> fetch_calls (streamOpenAI lexemePlatform (Inr (streamingResponse [sampleBody])) [] ''Hello''
        emptyUrlProvider) = []"
proof -
  have k: "\<not> truthy_string (apiKey noKeyProvider)" by code_simp
  have u: "\<not> truthy_string (baseUrl emptyUrlProvider)" by code_simp
  show ?thesis
    using k u
      missing_configuration_fails_first [OF disjI1 [OF k],
        of lexemePlatform "Inr (streamingResponse [sampleBody])" "[]" "''Hello''"]
      missing_configuration_fails_first [OF disjI2 [OF u],
        of lexemePlatform "Inr (streamingResponse [sampleBody])" "[]" "''Hello''"]
    by blast
qed

text \<open>
  Claim C7: for a response with a status outside 200 to 299 whose body text can be read,
  the call fails with an error whose message contains the status code in decimal digits and
  the body text, and \<^verbatim>\<open>onChunk\<close> is never invoked.
\<close>

theorem error_status_reported:
  assumes "truthy_string (apiKey provider)" and "truthy_string (baseUrl provider)"
    and "status r < 200 \<or> 299 < status r"
    and "response_text r = Inr err"
  shows "outcome (streamOpenAI p (Inr r) hist newMessage provider)
           = Inl (Error (''Provider Error ('' @ showNat (status r) @ ''): '' @ err))
         \<and> sublist (showNat (status r)) (''Provider Error ('' @ showNat (status r) @ ''): '' @ err)
         \<and> decimalValue (showNat (status r)) = status r
         \<and> sublist err (''Provider Error ('' @ showNat (status r) @ ''): '' @ err)
         \<and> onChunk_calls (streamOpenAI p (Inr r) hist newMessage provider) = []"
proof -
  have "\<not> ok r" using assms(3) by (auto simp: ok_def)
  then have "streamOpenAI p (Inr r) hist newMessage provider
      = failed (Error (''Provider Error ('' @ showNat (status r) @ ''): '' @ err))
          [chatRequest hist newMessage provider]"
    using assms(1,2,4) by (simp add: streamOpenAI_def Let_def)
  moreover have "sublist (showNat (status r))
      (''Provider Error ('' @ showNat (status r) @ ''): '' @ err)"
    by (rule sublist_appendI)
  moreover have "sublist err (''Provider Error ('' @ showNat (status r) @ ''): '' @ err)"
    using sublist_appendI [of err "''Provider Error ('' @ showNat (status r) @ ''): ''" "[]"]
    by simp
  ultimately show ?thesis by (simp add: failed_def showNat_decimal)
qed

theorem error_status_reported_witness:
  "truthy_string (apiKey sampleProvider) \<and> truthy_string (baseUrl sampleProvider)
   \<and> 299 < status notFoundResponse
   \<and> response_text notFoundResponse = Inr ''model not found''
   \<and> outcome (streamOpenAI lexemePlatform (Inr notFoundResponse) [] ''Hello'' sampleProvider)
       = Inl (Error ''Provider Error (404): model not found'')
   \<and> onChunk_calls (streamOpenAI lexemePlatform (Inr notFoundResponse) [] ''Hello'' sampleProvider)
       = []"
proof -
  have h1: \<open>truthy_string (apiKey sampleProvider)\<close> by code_simp
  have h2: \<open>truthy_string (baseUrl sampleProvider)\<close> by code_simp
  have h3: "299 < status notFoundResponse" by (simp add: notFoundResponse_def)
  have h4: "response_text notFoundResponse = Inr ''model not found''"
    by (simp add: notFoundResponse_def)
  have e: "''Provider Error ('' @ showNat (status notFoundResponse) @ ''): '' @ ''model not found''
           = ''Provider Error (404): model not found''" by code_simp
  show ?thesis
    using h1 h2 h3 h4
      error_status_reported [OF h1 h2 disjI2 [OF h3] h4, of lexemePlatform "[]" "''Hello''"]
    unfolding e by blast
qed

text \<open>
  Claim C8: a complete \<^verbatim>\<open>data:\<close> line whose remainder \<^verbatim>\<open>JSON.parse\<close> rejects leaves the
  accumulator and the \<^verbatim>\<open>onChunk\<close> log as they were. For a body made of complete lines, the
  call resolves, and its resolved value and its \<^verbatim>\<open>onChunk\<close> invocations are those of the same
  body without the malformed line: the lines before and after it are processed as usual.
\<close>

theorem malformed_data_line_skipped:
  assumes "truthy_string (apiKey provider)" and "truthy_string (baseUrl provider)"
    and "ok r" and "response_body r = Some (Stream chunks None)"
    and "ok r'" and "response_body r' = Some (Stream chunks' None)"
    and "\<forall>l \<in> set (before @ bad # after). CHR 0x0A \<notin> set l"
    and "concat chunks = terminated (before @ bad # after)"
    and "concat chunks' = terminated (before @ after)"
    and "startsWith (trim bad) ''data: ''"
    and "JSON_parse p (replace (trim bad) ''data: '' []) = None"
  shows "fullText (processLine p st bad) = fullText st
         \<and> reported (processLine p st bad) = reported st
         \<and> outcome (streamOpenAI p (Inr r) hist newMessage provider)
           = Inr (fullText (foldl (processLine p) initial (before @ after)))
         \<and> outcome (streamOpenAI p (Inr r) hist newMessage provider)
           = outcome (streamOpenAI p (Inr r') hist newMessage provider)
         \<and> onChunk_calls (streamOpenAI p (Inr r) hist newMessage provider)
           = onChunk_calls (streamOpenAI p (Inr r') hist newMessage provider)"
proof -
  have bad: "JSON_parse p (payloadOf bad) = None"
    using assms(11) by (simp add: payloadOf_def)
  have lines: "completeLines (concat chunks) = before @ bad # after"
    using assms(7,8) by (simp add: completeLines_terminated)
  have lines': "completeLines (concat chunks') = before @ after"
    using assms(7,9) by (simp add: completeLines_terminated)
  show ?thesis
    using streamOpenAI_streaming [OF assms(1,2,3,4), of p hist newMessage]
      streamOpenAI_streaming [OF assms(1,2,5,6), of p hist newMessage]
      foldl_processLine_skip [OF bad, of initial before after]
      processLine_malformed [OF bad, of st]
    by (simp add: readLoop_accumulated lines lines')
qed

theorem malformed_data_line_skipped_witness:
  \<open>truthy_string (apiKey sampleProvider) \<and> truthy_string (baseUrl sampleProvider)
   \<and> ok (streamingResponse [malformedBody])
   \<and> response_body (streamingResponse [malformedBody]) = Some (Stream [malformedBody] None)
   \<and> ok (streamingResponse [sampleBody])
   \<and> response_body (streamingResponse [sampleBody]) = Some (Stream [sampleBody] None)
   \<and> concat [malformedBody] = terminated
         ([''data: {"choices":[{"delta":{"content":"Hi"}}]}''] @ malformedLine #
          [''data: {"choices":[{"delta":{"content":" there"}}]}'', ''data: [DONE]''])
   \<and> concat [sampleBody] = terminated
         ([''data: {"choices":[{"delta":{"content":"Hi"}}]}''] @
          [''data: {"choices":[{"delta":{"content":" there"}}]}'', ''data: [DONE]''])
   \<and> startsWith (trim malformedLine) ''data: ''
   \<and> JSON_parse lexemePlatform (replace (trim malformedLine) ''data: '' []) = None
   \<and> outcome (streamOpenAI lexemePlatform (Inr (streamingResponse [malformedBody])) [] ''Hello''
        sampleProvider) = Inr ''Hi there''
   \<and> onChunk_calls (streamOpenAI lexemePlatform (Inr (streamingResponse [malformedBody])) []
        ''Hello'' sampleProvider) = [''Hi'', ''Hi there'']\<close>
proof -
  have h1: \<open>truthy_string (apiKey sampleProvider)\<close> by code_simp
  have h2: \<open>truthy_string (baseUrl sampleProvider)\<close> by code_simp
  have ok: \<open>ok (streamingResponse cs)\<close> for cs by (simp add: ok_def streamingResponse_def)
  have body: \<open>response_body (streamingResponse cs) = Some (Stream cs None)\<close> for cs
    by (simp add: streamingResponse_def)
  have h7: \<open>\<forall>l \<in> set ([''data: {"choices":[{"delta":{"content":"Hi"}}]}''] @ malformedLine #
          [''data: {"choices":[{"delta":{"content":" there"}}]}'', ''data: [DONE]'']).
            CHR 0x0A \<notin> set l\<close> by code_simp
  have h8: \<open>concat [malformedBody] = terminated
         ([''data: {"choices":[{"delta":{"content":"Hi"}}]}''] @ malformedLine #
          [''data: {"choices":[{"delta":{"content":" there"}}]}'', ''data: [DONE]''])\<close>
    by code_simp
  have h9: \<open>concat [sampleBody] = terminated
         ([''data: {"choices":[{"delta":{"content":"Hi"}}]}''] @
          [''data: {"choices":[{"delta":{"content":" there"}}]}'', ''data: [DONE]''])\<close>
    by code_simp
  have h10: \<open>startsWith (trim malformedLine) ''data: ''\<close> by code_simp
  have h11: \<open>JSON_parse lexemePlatform (replace (trim malformedLine) ''data: '' []) = None\<close>
    by code_simp
  have e1: \<open>fullText (foldl (processLine lexemePlatform) initial
         ([''data: {"choices":[{"delta":{"content":"Hi"}}]}''] @
          [''data: {"choices":[{"delta":{"content":" there"}}]}'', ''data: [DONE]'']))
        = ''Hi there''\<close> by code_simp
  have e2: \<open>onChunk_calls (streamOpenAI lexemePlatform (Inr (streamingResponse [sampleBody])) []
        ''Hello'' sampleProvider) = [''Hi'', ''Hi there'']\<close> by code_simp
  from malformed_data_line_skipped [where p = lexemePlatform and hist = \<open>[]\<close>
      and newMessage = \<open>''Hello''\<close> and st = initial,
      OF h1 h2 ok body ok body h7 h8 h9 h10 h11]
  have \<open>outcome (streamOpenAI lexemePlatform (Inr (streamingResponse [malformedBody])) [] ''Hello''
        sampleProvider) = Inr ''Hi there''\<close>
    and \<open>onChunk_calls (streamOpenAI lexemePlatform (Inr (streamingResponse [malformedBody])) []
        ''Hello'' sampleProvider) = [''Hi'', ''Hi there'']\<close>
    using e1 e2 by simp_all
  then show ?thesis
    using h1 h2 ok body h8 h9 h10 h11 by blast
qed

section \<open>Properties of image generation and of the facade\<close>

text \<open>
  Claim C9: with the system key present, \<^verbatim>\<open>generateImage\<close> makes exactly one request to
  the managed backend, for one image of type \<^verbatim>\<open>image/jpeg\<close> with the given aspect ratio. When
  the response carries image bytes the call resolves with \<^verbatim>\<open>data:image/jpeg;base64,\<close>
  followed by these bytes; when it carries none (or empty ones) the call fails with the error
  \<^verbatim>\<open>No image generated\<close>.
\<close>

theorem generateImage_data_uri:
  assumes "truthy_string API_KEY"
  shows "sdk_calls (generateImage API_KEY generated prompt_text (Some ratio))
           = [GenerateImages \<lparr> image_model = IMAGEN, prompt = prompt_text, numberOfImages = 1,
                outputMimeType = ''image/jpeg'', aspectRatio = ratio \<rparr>]
         \<and> (generated = Inr response \<and> firstImageBytes response = Some bytes \<and> bytes \<noteq> []
              \<longrightarrow> outcome (generateImage API_KEY generated prompt_text (Some ratio))
                    = Inr (''data:image/jpeg;base64,'' @ bytes))
         \<and> (generated = Inr response \<and> \<not> truthy_string (firstImageBytes response)
              \<longrightarrow> outcome (generateImage API_KEY generated prompt_text (Some ratio))
                    = Inl (Error ''No image generated''))"
proof -
  obtain k where g: "getGeminiClient API_KEY = Inr k"
    using assms by (rule getGeminiClient_truthy)
  show ?thesis
    unfolding generateImage_def g
    by (cases "firstImageBytes response") (auto simp: Let_def)
qed

theorem generateImage_data_uri_witness:
  "truthy_string (Some ''key'')
   \<and> sdk_calls (generateImage (Some ''key'') (Inr (imageResponse ''/9j/4AAQ'')) ''a red kite''
        (Some ''16:9''))
       = [GenerateImages \<lparr> image_model = ''imagen-4.0-generate-001'', prompt = ''a red kite'',
            numberOfImages = 1, outputMimeType = ''image/jpeg'', aspectRatio = ''16:9'' \<rparr>]
   \<and> firstImageBytes (imageResponse ''/9j/4AAQ'') = Some ''/9j/4AAQ''
   \<and> outcome (generateImage (Some ''key'') (Inr (imageResponse ''/9j/4AAQ'')) ''a red kite''
        (Some ''16:9''))
       = Inr ''data:image/jpeg;base64,/9j/4AAQ''
   \<and> \<not> truthy_string (firstImageBytes emptyImageResponse)
   \<and> outcome (generateImage (Some ''key'') (Inr emptyImageResponse) ''a red kite'' (Some ''16:9''))
       = Inl (Error ''No image generated'')"
proof -
  have key: "truthy_string (Some ''key'')" by simp
  have b: "firstImageBytes (imageResponse ''/9j/4AAQ'') = Some ''/9j/4AAQ''" by code_simp
  have nb: "''/9j/4AAQ'' \<noteq> []" by simp
  have e: "\<not> truthy_string (firstImageBytes emptyImageResponse)" by code_simp
  have m: "IMAGEN = ''imagen-4.0-generate-001''" by (simp add: IMAGEN_def)
  have u: "''data:image/jpeg;base64,'' @ ''/9j/4AAQ'' = ''data:image/jpeg;base64,/9j/4AAQ''"
    by simp
  show ?thesis
    using key b nb e
      generateImage_data_uri [OF key, of "Inr (imageResponse ''/9j/4AAQ'')" "''a red kite''"
        "''16:9''" "imageResponse ''/9j/4AAQ''" "''/9j/4AAQ''"]
      generateImage_data_uri [OF key, of "Inr emptyImageResponse" "''a red kite''"
        "''16:9''" emptyImageResponse "[]"]
    unfolding m u by blast
qed

text \<open>
  Claim C10: through the facade, the OpenAI-compatible adapter sends the system message,
  every turn of the history and then the new user message, while the managed adapter
  creates the chat with the history without its last element. \<^verbatim>\<open>handleSendChat\<close> passes the
  messages so far followed by the new user turn as the history, and the new text again as
  the new message: the compatible request then ends with the new user text twice, and the
  managed adapter gets the prior turns as history and the new turn once, as the message.
\<close>

theorem history_projection_asymmetry:
  "(provider_type provider = openai \<and> truthy_string (apiKey provider)
      \<and> truthy_string (baseUrl provider) \<longrightarrow>
      requestMessages
        (streamChatResponse p API_KEY sent fetched hist newMessage newImages provider)
      = [[systemMessage] @ map apiMessage hist
         @ [\<lparr> api_role = ''user'', api_content = newMessage \<rparr>]])
   \<and> (provider_type provider = gemini \<and> truthy_string API_KEY \<longrightarrow>
      chatHistories
        (streamChatResponse p API_KEY sent fetched hist newMessage newImages provider)
      = [map historyEntry (butlast hist)]
      \<and> sentMessages
        (streamChatResponse p API_KEY sent fetched hist newMessage newImages provider)
      = [outgoingMessage (newParts newMessage newImages)])
   \<and> (provider_type provider = openai \<and> truthy_string (apiKey provider)
      \<and> truthy_string (baseUrl provider) \<and> trim input \<noteq> [] \<longrightarrow>
      map_option requestMessages
        (handleSendChat p API_KEY sent fetched now msgs input attached False provider)
      = Some [[systemMessage] @ map apiMessage msgs
              @ [\<lparr> api_role = ''user'', api_content = input \<rparr>,
                 \<lparr> api_role = ''user'', api_content = input \<rparr>]])
   \<and> (provider_type provider = gemini \<and> truthy_string API_KEY
      \<and> isSystem provider = Some True \<and> trim input \<noteq> [] \<longrightarrow>
      map_option chatHistories
        (handleSendChat p API_KEY sent fetched now msgs input attached False provider)
      = Some [map historyEntry msgs]
      \<and> map_option sentMessages
        (handleSendChat p API_KEY sent fetched now msgs input attached False provider)
      = Some [outgoingMessage (newParts input attached)])"
proof (intro conjI impI)
  assume h: "provider_type provider = openai \<and> truthy_string (apiKey provider)
      \<and> truthy_string (baseUrl provider)"
  then have fc: "fetch_calls (streamOpenAI p fetched hist newMessage provider)
      = [chatRequest hist newMessage provider]"
    by (simp add: streamOpenAI_fetch_calls)
  show "requestMessages
        (streamChatResponse p API_KEY sent fetched hist newMessage newImages provider)
      = [[systemMessage] @ map apiMessage hist
         @ [\<lparr> api_role = ''user'', api_content = newMessage \<rparr>]]"
    using h
    by (simp add: requestMessages_def streamChatResponse_def fc chatRequest_def
        messagesWithSystem_def systemMessage_def)
next
  assume h: "provider_type provider = gemini \<and> truthy_string API_KEY"
  then have sc: "sdk_calls (streamGemini API_KEY sent hist newMessage newImages (modelId provider))
      = [ChatsCreate \<lparr> model = modelId provider, history = prevHistory hist, temperature = 7 / 10,
              systemInstruction = ''You are a helpful, professional AI assistant in a studio application. Use Markdown for formatting.'' \<rparr>,
            SendMessageStream (outgoingMessage (newParts newMessage newImages))]"
    by (simp add: streamGemini_sdk_calls)
  show "chatHistories
        (streamChatResponse p API_KEY sent fetched hist newMessage newImages provider)
      = [map historyEntry (butlast hist)]"
    using h by (simp add: chatHistories_def streamChatResponse_def sc prevHistory_def)
  show "sentMessages
        (streamChatResponse p API_KEY sent fetched hist newMessage newImages provider)
      = [outgoingMessage (newParts newMessage newImages)]"
    using h by (simp add: sentMessages_def streamChatResponse_def sc)
next
  let ?m = "newUserMsg now input attached"
  assume h: "provider_type provider = openai \<and> truthy_string (apiKey provider)
      \<and> truthy_string (baseUrl provider) \<and> trim input \<noteq> []"
  then have fc: "fetch_calls (streamOpenAI p fetched (msgs @ [?m]) input provider)
      = [chatRequest (msgs @ [?m]) input provider]"
    by (simp add: streamOpenAI_fetch_calls)
  show "map_option requestMessages
        (handleSendChat p API_KEY sent fetched now msgs input attached False provider)
      = Some [[systemMessage] @ map apiMessage msgs
              @ [\<lparr> api_role = ''user'', api_content = input \<rparr>,
                 \<lparr> api_role = ''user'', api_content = input \<rparr>]]"
    using h fc
    by (simp add: handleSendChat_def Let_def requestMessages_def streamChatResponse_def
        chatRequest_def messagesWithSystem_def systemMessage_def newUserMsg_def apiMessage_def)
next
  let ?m = "newUserMsg now input attached"
  assume h: "provider_type provider = gemini \<and> truthy_string API_KEY
      \<and> isSystem provider = Some True \<and> trim input \<noteq> []"
  then have sc: "sdk_calls (streamGemini API_KEY sent (msgs @ [?m]) input attached (modelId provider))
      = [ChatsCreate \<lparr> model = modelId provider, history = prevHistory (msgs @ [?m]),
              temperature = 7 / 10,
              systemInstruction = ''You are a helpful, professional AI assistant in a studio application. Use Markdown for formatting.'' \<rparr>,
            SendMessageStream (outgoingMessage (newParts input attached))]"
    by (simp add: streamGemini_sdk_calls)
  have args: "msg_text ?m = input" "images ?m = Some attached"
    by (simp_all add: newUserMsg_def)
  show "map_option chatHistories
        (handleSendChat p API_KEY sent fetched now msgs input attached False provider)
      = Some [map historyEntry msgs]"
    using h sc
    by (simp add: handleSendChat_def Let_def args chatHistories_def streamChatResponse_def
        prevHistory_def)
  show "map_option sentMessages
        (handleSendChat p API_KEY sent fetched now msgs input attached False provider)
      = Some [outgoingMessage (newParts input attached)]"
    using h sc
    by (simp add: handleSendChat_def Let_def args sentMessages_def streamChatResponse_def)
qed

theorem history_projection_asymmetry_witness:
  "provider_type sampleProvider = openai \<and> truthy_string (apiKey sampleProvider)
   \<and> truthy_string (baseUrl sampleProvider) \<and> trim ''again'' \<noteq> []
   \<and> requestMessages
        (streamChatResponse lexemePlatform (Some ''key'') (Inr (Stream [] None))
           (Inr (streamingResponse [sampleBody])) sampleHistory ''more'' [] sampleProvider)
      = [[systemMessage,
          \<lparr> api_role = ''user'', api_content = ''look'' \<rparr>,
          \<lparr> api_role = ''assistant'', api_content = ''nice'' \<rparr>,
          \<lparr> api_role = ''user'', api_content = ''more'' \<rparr>,
          \<lparr> api_role = ''user'', api_content = ''more'' \<rparr>]]
   \<and> map_option requestMessages
        (handleSendChat lexemePlatform (Some ''key'') (Inr (Stream [] None))
           (Inr (streamingResponse [sampleBody])) 4 sampleHistory ''again'' [] False sampleProvider)
      = Some [[systemMessage,
               \<lparr> api_role = ''user'', api_content = ''look'' \<rparr>,
               \<lparr> api_role = ''assistant'', api_content = ''nice'' \<rparr>,
               \<lparr> api_role = ''user'', api_content = ''more'' \<rparr>,
               \<lparr> api_role = ''user'', api_content = ''again'' \<rparr>,
               \<lparr> api_role = ''user'', api_content = ''again'' \<rparr>]]
   \<and> provider_type geminiProvider = gemini \<and> truthy_string (Some ''key'')
   \<and> isSystem geminiProvider = Some True
   \<and> chatHistories
        (streamChatResponse lexemePlatform (Some ''key'') (Inr (Stream [] None))
           (Inr (streamingResponse [sampleBody])) sampleHistory ''more'' [] geminiProvider)
      = [[\<lparr> content_role = ''user'',
            parts = [TextPart ''look'', InlineData ''image/jpeg'' ''AAAA'',
                     InlineData ''image/jpeg'' ''BBBB''] \<rparr>,
          \<lparr> content_role = ''model'', parts = [TextPart ''nice''] \<rparr>]]
   \<and> sentMessages
        (streamChatResponse lexemePlatform (Some ''key'') (Inr (Stream [] None))
           (Inr (streamingResponse [sampleBody])) sampleHistory ''more'' [] geminiProvider)
      = [MessageString ''more'']
   \<and> map_option chatHistories
        (handleSendChat lexemePlatform (Some ''key'') (Inr (Stream [] None))
           (Inr (streamingResponse [sampleBody])) 4 sampleHistory ''again'' [] False geminiProvider)
      = Some [[\<lparr> content_role = ''user'',
                 parts = [TextPart ''look'', InlineData ''image/jpeg'' ''AAAA'',
                          InlineData ''image/jpeg'' ''BBBB''] \<rparr>,
               \<lparr> content_role = ''model'', parts = [TextPart ''nice''] \<rparr>,
               \<lparr> content_role = ''user'', parts = [TextPart ''more''] \<rparr>]]
   \<and> map_option sentMessages
        (handleSendChat lexemePlatform (Some ''key'') (Inr (Stream [] None))
           (Inr (streamingResponse [sampleBody])) 4 sampleHistory ''again'' [] False geminiProvider)
      = Some [MessageString ''again'']"
proof -
  have o1: "provider_type sampleProvider = openai" by (simp add: sampleProvider_def)
  have o2: "truthy_string (apiKey sampleProvider)" by code_simp
  have o3: "truthy_string (baseUrl sampleProvider)" by code_simp
  have t: "trim ''again'' \<noteq> []" by code_simp
  have g1: "provider_type geminiProvider = gemini" by (simp add: geminiProvider_def)
  have g2: "truthy_string (Some ''key'')" by simp
  have g3: "isSystem geminiProvider = Some True" by (simp add: geminiProvider_def)
  have e0: "[systemMessage] @ map apiMessage sampleHistory
              @ [\<lparr> api_role = ''user'', api_content = ''more'' \<rparr>]
            = [systemMessage,
               \<lparr> api_role = ''user'', api_content = ''look'' \<rparr>,
               \<lparr> api_role = ''assistant'', api_content = ''nice'' \<rparr>,
               \<lparr> api_role = ''user'', api_content = ''more'' \<rparr>,
               \<lparr> api_role = ''user'', api_content = ''more'' \<rparr>]"
    by code_simp
  have e1: "[systemMessage] @ map apiMessage sampleHistory
              @ [\<lparr> api_role = ''user'', api_content = ''again'' \<rparr>,
                 \<lparr> api_role = ''user'', api_content = ''again'' \<rparr>]
            = [systemMessage,
               \<lparr> api_role = ''user'', api_content = ''look'' \<rparr>,
               \<lparr> api_role = ''assistant'', api_content = ''nice'' \<rparr>,
               \<lparr> api_role = ''user'', api_content = ''more'' \<rparr>,
               \<lparr> api_role = ''user'', api_content = ''again'' \<rparr>,
               \<lparr> api_role = ''user'', api_content = ''again'' \<rparr>]"
    by code_simp
  have e2: "map historyEntry sampleHistory
            = [\<lparr> content_role = ''user'',
                 parts = [TextPart ''look'', InlineData ''image/jpeg'' ''AAAA'',
                          InlineData ''image/jpeg'' ''BBBB''] \<rparr>,
               \<lparr> content_role = ''model'', parts = [TextPart ''nice''] \<rparr>,
               \<lparr> content_role = ''user'', parts = [TextPart ''more''] \<rparr>]"
    by code_simp
  have e3: "outgoingMessage (newParts ''again'' []) = MessageString ''again''" by code_simp
  have e4: "map historyEntry (butlast sampleHistory)
            = [\<lparr> content_role = ''user'',
                 parts = [TextPart ''look'', InlineData ''image/jpeg'' ''AAAA'',
                          InlineData ''image/jpeg'' ''BBBB''] \<rparr>,
               \<lparr> content_role = ''model'', parts = [TextPart ''nice''] \<rparr>]"
    by code_simp
  have e5: "outgoingMessage (newParts ''more'' []) = MessageString ''more''" by code_simp
  note a = history_projection_asymmetry [where p = lexemePlatform and API_KEY = "Some ''key''"
      and sent = "Inr (Stream [] None)" and fetched = "Inr (streamingResponse [sampleBody])"
      and hist = sampleHistory and newMessage = "''more''" and newImages = "[]"
      and now = 4 and msgs = sampleHistory and input = "''again''" and attached = "[]"
      and provider = sampleProvider]
  note b = history_projection_asymmetry [where p = lexemePlatform and API_KEY = "Some ''key''"
      and sent = "Inr (Stream [] None)" and fetched = "Inr (streamingResponse [sampleBody])"
      and hist = sampleHistory and newMessage = "''more''" and newImages = "[]"
      and now = 4 and msgs = sampleHistory and input = "''again''" and attached = "[]"
      and provider = geminiProvider]
  show ?thesis
    using o1 o2 o3 t g1 g2 g3 a b unfolding e0 e1 e2 e3 e4 e5 by blast
qed

end
